theory Spec2Isabelle
  imports Complex_Main "HOL-Library.Monad_Syntax" "HOL-Library.AList"
begin

section \<open>OpenGL polar sphere benchmark (Benchmarks/benchmark.py)\<close>

text \<open>
  A shallow embedding of the pattern generators, the particle physics step, the render
  path selection, the benchmark driver and the result store of \<^verbatim>\<open>benchmark.py\<close>.

  Python floats are modelled as the real numbers: the statements below are about the
  exact arithmetic the program approximates, and NaN and the infinities are no
  densities. The one place where rounding is modelled is the product
  \<^verbatim>\<open>density * 10000\<close> of \<^verbatim>\<open>FibonacciSphere.generate\<close> and \<^verbatim>\<open>density * 20000\<close> of
  \<^verbatim>\<open>PrimeSpiral.generate\<close>: their truncation is a point count stated for every
  density, and it is taken of the product rounded to a double, as Python computes it;
  where that product is an infinity, \<^verbatim>\<open>int\<close> raises.
  Python integers are \<^typ>\<open>int\<close> or, where the code only counts, \<^typ>\<open>nat\<close>.
  An operation that raises in Python (a division by zero, \<^verbatim>\<open>math.acos\<close> or
  \<^verbatim>\<open>math.log\<close> outside its domain, an index out of range) returns \<^term>\<open>None\<close>.
\<close>

subsection \<open>Data model\<close>

type_synonym vec3 = "real \<times> real \<times> real"
type_synonym color4 = "real \<times> real \<times> real \<times> real"

text \<open>The \<^verbatim>\<open>points\<close> and \<^verbatim>\<open>colors\<close> attributes of a \<^verbatim>\<open>PolarSpherePattern\<close>.\<close>

record field =
  points :: "vec3 list"
  colors :: "color4 list"

text \<open>One entry of \<^verbatim>\<open>BenchmarkResult.pattern_results[name]\<close>.\<close>

record bench_record =
  density :: real
  rpoints :: nat
  fps :: real
  render_time_ms :: real

text \<open>
  \<^verbatim>\<open>pattern_results\<close> is a Python dict: keys in insertion order, one list of records
  per key. It is an association list whose keys stay distinct.
\<close>

type_synonym pattern_results = "(string \<times> bench_record list) list"

subsection \<open>BenchmarkResult\<close>

definition add_result ::
  "string \<Rightarrow> real \<Rightarrow> nat \<Rightarrow> real \<Rightarrow> real \<Rightarrow> pattern_results \<Rightarrow> pattern_results" where
  "add_result pattern_name d n f render_time res =
     (let res1 = (if pattern_name \<in> fst ` set res then res
                  else res @ [(pattern_name, [])]);
          old = (case map_of res1 pattern_name of Some rs \<Rightarrow> rs | None \<Rightarrow> [])
      in AList.update pattern_name
           (old @ [\<lparr>density = d, rpoints = n, fps = f,
                    render_time_ms = render_time * 1000\<rparr>]) res1)"

text \<open>
  Python's \<^verbatim>\<open>max\<close> over a non-empty iterable keeps the first element and replaces it
  by every later one that is strictly greater; on an empty iterable it raises.
\<close>

fun py_max :: "'a::linorder list \<Rightarrow> 'a option" where
  "py_max [] = None"
| "py_max (x # xs) = Some (foldl (\<lambda>m y. if m < y then y else m) x xs)"

text \<open>
  One line of \<^verbatim>\<open>get_summary\<close>: the pattern name, \<^verbatim>\<open>max_fps\<close> and \<^verbatim>\<open>max_points\<close>.
  The source formats the three into one string; the model keeps the three values.
\<close>

record summary_line =
  sname :: string
  max_fps :: real
  max_points :: nat

definition summary_of :: "string \<times> bench_record list \<Rightarrow> summary_line list" where
  "summary_of entry =
     (case entry of (pattern, results) \<Rightarrow>
        if results \<noteq> [] then
          (case (py_max (map fps results), py_max (map rpoints results)) of
             (Some mf, Some mp) \<Rightarrow> [\<lparr>sname = pattern, max_fps = mf, max_points = mp\<rparr>]
           | _ \<Rightarrow> [])
        else [])"

definition get_summary :: "pattern_results \<Rightarrow> summary_line list" where
  "get_summary res = concat (map summary_of res)"

subsection \<open>Python primitives\<close>

text \<open>
  \<^verbatim>\<open>int(x)\<close> on a float truncates toward zero; \<^verbatim>\<open>range(n)\<close> is empty for \<open>n \<le> 0\<close>.
  True division raises \<^verbatim>\<open>ZeroDivisionError\<close> on a zero divisor, \<^verbatim>\<open>math.acos\<close> raises
  \<^verbatim>\<open>ValueError\<close> outside \<open>[-1, 1]\<close> and \<^verbatim>\<open>math.log\<close> outside the positive numbers.
  \<^verbatim>\<open>math.sqrt\<close> is only ever applied to a sum of squares or to a literal, and is
  \<^const>\<open>sqrt\<close>.
\<close>

definition py_int :: "real \<Rightarrow> int" where
  "py_int x = (if 0 \<le> x then \<lfloor>x\<rfloor> else \<lceil>x\<rceil>)"

definition py_range :: "int \<Rightarrow> nat list" where
  "py_range n = [0..<nat n]"

definition py_div :: "real \<Rightarrow> real \<Rightarrow> real option" where
  "py_div a b = (if b = 0 then None else Some (a / b))"

definition py_acos :: "real \<Rightarrow> real option" where
  "py_acos x = (if -1 \<le> x \<and> x \<le> 1 then Some (arccos x) else None)"

definition py_log :: "real \<Rightarrow> real option" where
  "py_log x = (if 0 < x then Some (ln x) else None)"

text \<open>
  The product of two floats is the exact product rounded to the nearest double, ties
  to the even mantissa (IEEE 754 binary64): \<open>round_double x\<close> keeps 53 significant bits
  of \<open>x\<close>. A product beyond \<open>max_double\<close>, the largest double, is an infinity in
  Python, and \<^verbatim>\<open>int\<close> of an infinity raises \<^verbatim>\<open>OverflowError\<close>. Below the normal
  range \<open>round_double\<close> keeps more bits than a double has; such a product is less than
  1 in magnitude either way, and its truncation is 0.
\<close>

definition round_half_even :: "real \<Rightarrow> int" where
  "round_half_even x =
     (let f = \<lfloor>x\<rfloor>; r = x - of_int f
      in if r < 1/2 then f else if 1/2 < r then f + 1 else if even f then f else f + 1)"

definition round_double :: "real \<Rightarrow> real" where
  "round_double x =
     (if x = 0 then 0
      else let e = \<lfloor>log 2 \<bar>x\<bar>\<rfloor> - 52
           in of_int (round_half_even (x / 2 powi e)) * 2 powi e)"

definition max_double :: real where
  "max_double = (2 - 2 powi (-52)) * 2 powi 1023"

definition py_fmul :: "real \<Rightarrow> real \<Rightarrow> real" where
  "py_fmul a b = round_double (a * b)"

definition py_int_float :: "real \<Rightarrow> int option" where
  "py_int_float x = (if max_double < \<bar>x\<bar> then None else Some (py_int x))"

text \<open>
  A loop whose body appends one item per iteration, or raises: the items in order, or
  \<^term>\<open>None\<close> at the first iteration that raises.
\<close>

fun collect :: "('a \<Rightarrow> 'b option) \<Rightarrow> 'a list \<Rightarrow> 'b list option" where
  "collect body [] = Some []"
| "collect body (x # xs) = do { y \<leftarrow> body x; ys \<leftarrow> collect body xs; Some (y # ys) }"

subsection \<open>FibonacciSphere.generate (lines 43-68)\<close>

text \<open>
  One iteration of the loop over \<open>i\<close>. The color reads \<^verbatim>\<open>time.time()\<close> three times;
  \<open>now i k\<close> is the value of the \<open>k\<close>-th read in iteration \<open>i\<close>.
\<close>

definition fib_point :: "(nat \<Rightarrow> nat \<Rightarrow> real) \<Rightarrow> int \<Rightarrow> nat \<Rightarrow> (vec3 \<times> color4) option" where
  "fib_point now n_points i = do {
     let golden_ratio = (1 + sqrt 5) / 2;
     theta \<leftarrow> py_div (2 * pi * real i) golden_ratio;
     q \<leftarrow> py_div (2 * real i) (of_int n_points);
     phi \<leftarrow> py_acos (1 - q);
     let x = sin phi * cos theta;
     let y = sin phi * sin theta;
     let z = cos phi;
     let r = \<bar>sin (theta * 3.7 + now i 0 * 0.1)\<bar> * (x + 1) / 2;
     let g = \<bar>cos (phi * 2.3 + now i 1 * 0.15)\<bar> * (y + 1) / 2;
     let b = \<bar>sin ((theta + phi) * 1.9 + now i 2 * 0.05)\<bar> * (z + 1) / 2;
     let alpha = 0.8 + 0.2 * sin (real i * 0.01);
     Some ((x, y, z), (r, g, b, alpha))
   }"

definition FibonacciSphere_generate :: "(nat \<Rightarrow> nat \<Rightarrow> real) \<Rightarrow> real \<Rightarrow> field option" where
  "FibonacciSphere_generate now d = do {
     n_points \<leftarrow> py_int_float (py_fmul d 10000);
     pcs \<leftarrow> collect (fib_point now n_points) (py_range n_points);
     Some \<lparr>points = map fst pcs, colors = map snd pcs\<rparr>
   }"

subsection \<open>PrimeSpiral.generate (lines 84-122)\<close>

text \<open>
  \<open>isqrt n\<close> is \<^verbatim>\<open>int(math.sqrt(n))\<close>, the integer part of the square root
  (lemma \<open>isqrt_floor_sqrt\<close>). \<open>trial_division n ds\<close> is the inner loop over the
  candidate divisors, leaving at the first divisor found.
\<close>

fun isqrt :: "nat \<Rightarrow> nat" where
  "isqrt 0 = 0"
| "isqrt (Suc n) = (let r = isqrt n in if (r + 1) * (r + 1) \<le> Suc n then r + 1 else r)"

fun trial_division :: "nat \<Rightarrow> nat list \<Rightarrow> bool" where
  "trial_division n [] = True"
| "trial_division n (i # is) = (if n mod i = 0 then False else trial_division n is)"

definition find_primes :: "int \<Rightarrow> nat list" where
  "find_primes max_num =
     filter (\<lambda>n. trial_division n [2..<isqrt n + 1]) [2..<nat max_num]"

definition prime_point :: "int \<Rightarrow> nat \<Rightarrow> nat \<times> nat \<Rightarrow> (vec3 \<times> color4) option" where
  "prime_point max_num len ip = (case ip of (i, prime) \<Rightarrow> do {
     t0 \<leftarrow> py_div (real prime) (of_int max_num);
     let t = t0 * 50 * pi;
     q \<leftarrow> py_div (real i) (real len);
     phi \<leftarrow> py_acos (1 - 2 * q);
     let offset_x = sin (real prime * 0.001) * 0.1;
     let offset_y = cos (real prime * 0.0007) * 0.1;
     let x = sin phi * cos t + offset_x;
     let y = sin phi * sin t + offset_y;
     let z = cos phi;
     lp \<leftarrow> py_log (real prime);
     lm \<leftarrow> py_log (of_int max_num);
     intensity \<leftarrow> py_div lp lm;
     let hue_shift = sin (real prime * 0.01) * 0.5 + 0.5;
     let saturation = cos (real i * 0.001) * 0.3 + 0.7;
     Some ((x, y, z), (intensity * hue_shift, saturation, 1.0 - intensity, 0.9))
   })"

definition PrimeSpiral_generate :: "real \<Rightarrow> field option" where
  "PrimeSpiral_generate d = do {
     max_num \<leftarrow> py_int_float (py_fmul d 20000);
     let primes = find_primes max_num;
     pcs \<leftarrow> collect (prime_point max_num (length primes)) (enumerate 0 primes);
     Some \<lparr>points = map fst pcs, colors = map snd pcs\<rparr>
   }"

text \<open>
  What the claim about the prime spiral counts: the prime numbers, as usually defined.
\<close>

definition is_prime_number :: "nat \<Rightarrow> bool" where
  "is_prime_number p \<longleftrightarrow> 2 \<le> p \<and> (\<forall>m. m dvd p \<longrightarrow> m = 1 \<or> m = p)"

text \<open>
  A loop that threads a state through its iterations and stops at the first that raises.
\<close>

fun for_loop :: "('a \<Rightarrow> 's \<Rightarrow> 's option) \<Rightarrow> 'a list \<Rightarrow> 's \<Rightarrow> 's option" where
  "for_loop body [] s = Some s"
| "for_loop body (x # xs) s = body x s \<bind> for_loop body xs"

subsection \<open>MandelbrotSphere (lines 130-182)\<close>

text \<open>
  \<^verbatim>\<open>mandelbrot_iterations\<close>: the loop over \<open>n\<close> returns \<open>n\<close> as soon as
  \<open>abs z > 2\<close>; when the range is exhausted (at once, for \<open>max_iter \<le> 0\<close>) the
  function returns \<open>max_iter\<close>.
\<close>

fun escape :: "complex \<Rightarrow> complex \<Rightarrow> nat list \<Rightarrow> nat option" where
  "escape c z [] = None"
| "escape c z (n # ns) = (if cmod z > 2 then Some n else escape c (z * z + c) ns)"

definition mandelbrot_iterations :: "complex \<Rightarrow> int \<Rightarrow> int" where
  "mandelbrot_iterations c max_iter =
     (case escape c 0 (py_range max_iter) of Some n \<Rightarrow> int n | None \<Rightarrow> max_iter)"

text \<open>
  One grid cell of one layer: \<^term>\<open>Some None\<close> when the sample is dropped,
  \<^term>\<open>None\<close> when the iteration raises.
\<close>

definition mandel_cell ::
  "int \<Rightarrow> int \<Rightarrow> nat \<Rightarrow> nat \<times> nat \<times> nat \<Rightarrow> (vec3 \<times> color4) option option" where
  "mandel_cell resolution max_iter layers cell = (case cell of (layer, i, j) \<Rightarrow> do {
     let z_offset = (real layer - 1) * 0.3;
     qi \<leftarrow> py_div (real i) (of_int resolution);
     let x = (qi - 0.5) * 4;
     qj \<leftarrow> py_div (real j) (of_int resolution);
     let y = (qj - 0.5) * 4;
     let c = Complex (x + real layer * 0.1) (y + real layer * 0.05);
     let iterations = mandelbrot_iterations c max_iter;
     if iterations < max_iter then do {
       let theta = x * pi * (1 + real layer * 0.2);
       let phi = y * pi / 2 + pi / 2;
       let distortion = sin (of_int iterations * 0.1) * 0.1;
       let sphere_x = (sin phi * cos theta) * (1 + distortion);
       let sphere_y = (sin phi * sin theta) * (1 + distortion);
       let sphere_z = cos phi + z_offset;
       intensity \<leftarrow> py_div (of_int iterations) (of_int max_iter);
       layer_hue \<leftarrow> py_div (real layer) (real layers);
       let r = intensity * sin (layer_hue * pi);
       let g = 0.3 + layer_hue * 0.4;
       let b = (1.0 - intensity) * cos (layer_hue * pi);
       let alpha = 0.7 + intensity * 0.3;
       Some (Some ((sphere_x, sphere_y, sphere_z), (r, g, b, alpha)))
     } else Some None
   })"

definition MandelbrotSphere_generate :: "real \<Rightarrow> field option" where
  "MandelbrotSphere_generate d = do {
     let resolution = py_int (d * 100);
     let max_iter = py_int (d * 50);
     let layers = 3;
     cells \<leftarrow> collect (mandel_cell resolution max_iter layers)
       [(layer, i, j). layer \<leftarrow> [0..<layers], i \<leftarrow> py_range resolution, j \<leftarrow> py_range resolution];
     let pcs = List.map_filter (\<lambda>c. c) cells;
     Some \<lparr>points = map fst pcs, colors = map snd pcs\<rparr>
   }"

subsection \<open>LorenzAttractor.generate (lines 317-371)\<close>

text \<open>
  One Euler step of one attractor: the state is the position \<open>(x, y, z)\<close> and the
  points and colors appended so far.
\<close>

definition lorenz_step ::
  "nat \<Rightarrow> nat \<Rightarrow> int \<Rightarrow> nat \<Rightarrow> vec3 \<times> (vec3 \<times> color4) list \<Rightarrow> (vec3 \<times> (vec3 \<times> color4) list) option" where
  "lorenz_step attractors attractor steps i st = (case st of ((x, y, z), acc) \<Rightarrow> do {
     let s = 10.0 + real attractor * 2;
     let r = 28.0 + real attractor * 5;
     let b = 8.0 / 3.0 + real attractor * 0.5;
     let dt = 0.005;
     let dx = s * (y - x) + sin (real i * 0.001) * 0.1;
     let dy = x * (r - z) - y + cos (real i * 0.0007) * 0.1;
     let dz = x * y - b * z + sin (x * 0.1) * 0.05;
     let x = x + dx * dt;
     let y = y + dy * dt;
     let z = z + dz * dt;
     let noise_x = sin (real i * 0.01 + real attractor) * 0.02;
     let noise_y = cos (real i * 0.013 + real attractor) * 0.02;
     let noise_z = sin (real i * 0.007 + real attractor) * 0.01;
     let magnitude = sqrt ((x + noise_x)\<^sup>2 + (y + noise_y)\<^sup>2 + (z + noise_z)\<^sup>2);
     if magnitude > 0 then do {
       norm_x \<leftarrow> py_div (x + noise_x) magnitude;
       norm_y \<leftarrow> py_div (y + noise_y) magnitude;
       norm_z \<leftarrow> py_div (z + noise_z) magnitude;
       t \<leftarrow> py_div (real i) (of_int steps);
       attractor_hue \<leftarrow> py_div (real attractor) (real attractors);
       let r_color = t * sin (attractor_hue * 2 * pi);
       let g_color = sin (t * pi + attractor_hue * pi);
       let b_color = (1.0 - t) * cos (attractor_hue * 3 * pi);
       let alpha = 0.6 + 0.4 * sin (t * 4 * pi);
       Some ((x, y, z),
             acc @ [((norm_x, norm_y, norm_z), (\<bar>r_color\<bar>, \<bar>g_color\<bar>, \<bar>b_color\<bar>, alpha))])
     } else Some ((x, y, z), acc)
   })"

definition lorenz_attractor ::
  "nat \<Rightarrow> real \<Rightarrow> nat \<Rightarrow> (vec3 \<times> color4) list \<Rightarrow> (vec3 \<times> color4) list option" where
  "lorenz_attractor attractors d attractor acc = do {
     let init = (1.0 + real attractor, 1.0 - real attractor * 0.5, 1.0 + real attractor * 0.3);
     let steps = py_int (d * 5000);
     (xyz, acc') \<leftarrow> for_loop (lorenz_step attractors attractor steps) (py_range steps) (init, acc);
     Some acc'
   }"

definition LorenzAttractor_generate :: "real \<Rightarrow> field option" where
  "LorenzAttractor_generate d = do {
     let attractors = 3;
     pcs \<leftarrow> for_loop (lorenz_attractor attractors d) [0..<attractors] [];
     Some \<lparr>points = map fst pcs, colors = map snd pcs\<rparr>
   }"

subsection \<open>ParticleSystem (lines 184-309)\<close>

text \<open>
  The class body of \<^verbatim>\<open>ParticleSystem\<close> binds \<^verbatim>\<open>__init__\<close> and \<^verbatim>\<open>generate\<close> at
  lines 187-226 and binds both names again at lines 285-309, after
  \<^verbatim>\<open>update_physics\<close>, with the opening lines of the Lorenz generator. Python keeps the
  later binding, so a call of \<^verbatim>\<open>ParticleSystem.generate\<close> runs the second definition,
  \<open>ParticleSystem_generate\<close> below; \<open>ParticleSystem_generate_first\<close> is the first,
  unreachable one. \<^verbatim>\<open>random.uniform(a, b)\<close> is \<open>a + (b - a) * random()\<close>; \<open>rnd i k\<close>
  is the \<open>k\<close>-th value of \<^verbatim>\<open>random()\<close> drawn for particle \<open>i\<close>.

  An instance made by the later \<^verbatim>\<open>__init__\<close> has no \<^verbatim>\<open>velocities\<close> or \<^verbatim>\<open>masses\<close>
  attribute; reading either raises, as reading an index of the empty list does in the
  model.
\<close>

record particle_system = field +
  velocities :: "vec3 list"
  masses :: "real list"

definition py_uniform :: "real \<Rightarrow> real \<Rightarrow> real \<Rightarrow> real" where
  "py_uniform a b u = a + (b - a) * u"

definition new_particle :: "(nat \<Rightarrow> nat \<Rightarrow> real) \<Rightarrow> nat \<Rightarrow> vec3 \<times> color4 \<times> vec3 \<times> real" where
  "new_particle rnd i =
     (let theta = py_uniform 0 (2 * pi) (rnd i 0);
          phi = py_uniform 0 pi (rnd i 1);
          x = sin phi * cos theta;
          y = sin phi * sin theta;
          z = cos phi;
          vx = py_uniform (-0.01) 0.01 (rnd i 2);
          vy = py_uniform (-0.01) 0.01 (rnd i 3);
          vz = py_uniform (-0.01) 0.01 (rnd i 4);
          mass = py_uniform 0.5 2.0 (rnd i 5);
          r = mass / 2.0;
          g = \<bar>z\<bar>;
          b = (\<bar>x\<bar> + \<bar>y\<bar>) / 2
      in ((x, y, z), (r, g, b, 0.8), (vx, vy, vz), mass))"

definition ParticleSystem_generate_first :: "(nat \<Rightarrow> nat \<Rightarrow> real) \<Rightarrow> real \<Rightarrow> particle_system" where
  "ParticleSystem_generate_first rnd d =
     (let n_particles = py_int (d * 5000);
          ps = map (new_particle rnd) (py_range n_particles)
      in \<lparr>points = map fst ps, colors = map (fst \<circ> snd) ps,
          velocities = map (fst \<circ> snd \<circ> snd) ps, masses = map (snd \<circ> snd \<circ> snd) ps\<rparr>)"

definition particle_attractor :: "real \<Rightarrow> nat \<Rightarrow> field \<Rightarrow> field option" where
  "particle_attractor d attractor fld =
     (let sigma = 10.0; rho = 28.0; beta = 8.0 / 3.0;
          s = sigma + real attractor * 2;
          r = rho + real attractor * 5;
          b = beta + real attractor * 0.5;
          xyz = (1.0 + real attractor, 1.0 - real attractor * 0.5, 1.0 + real attractor * 0.3);
          dt = (0.005 :: real);
          steps = py_int (d * 5000)
      in Some fld)"

definition ParticleSystem_generate :: "real \<Rightarrow> field option" where
  "ParticleSystem_generate d = do {
     let attractors = 3;
     for_loop (particle_attractor d) [0..<attractors] \<lparr>points = [], colors = []\<rparr>
   }"

text \<open>
  \<^verbatim>\<open>update_physics\<close> (lines 228-282). \<open>pair_force\<close> is the body of the loop over the
  pairs \<open>i < j\<close>, \<open>net_forces\<close> the two nested iterations, \<open>integrate_particle\<close> the
  velocity and position update of particle \<open>i\<close> (lines 268-275),
  \<open>normalize_point\<close> the projection back to the sphere (lines 278-282).
\<close>

definition py_index :: "'a list \<Rightarrow> nat \<Rightarrow> 'a option" where
  "py_index xs i = (if i < length xs then Some (xs ! i) else None)"

definition pair_force :: "vec3 list \<Rightarrow> real list \<Rightarrow> nat \<Rightarrow> nat \<Rightarrow> vec3 list \<Rightarrow> vec3 list option" where
  "pair_force pts ms i j forces = do {
     let G = 0.0001;
     (x1, y1, z1) \<leftarrow> py_index pts i;
     (x2, y2, z2) \<leftarrow> py_index pts j;
     let dx = x2 - x1;
     let dy = y2 - y1;
     let dz = z2 - z1;
     let r = sqrt (dx * dx + dy * dy + dz * dz) + 0.001;
     mi \<leftarrow> py_index ms i;
     mj \<leftarrow> py_index ms j;
     f \<leftarrow> py_div (G * mi * mj) (r * r);
     ux \<leftarrow> py_div dx r;
     uy \<leftarrow> py_div dy r;
     uz \<leftarrow> py_div dz r;
     (fix, fiy, fiz) \<leftarrow> py_index forces i;
     let forces = forces[i := (fix + f * ux, fiy + f * uy, fiz + f * uz)];
     (fjx, fjy, fjz) \<leftarrow> py_index forces j;
     Some (forces[j := (fjx - f * ux, fjy - f * uy, fjz - f * uz)])
   }"

definition net_forces :: "vec3 list \<Rightarrow> real list \<Rightarrow> vec3 list option" where
  "net_forces pts ms =
     (let n = length pts
      in for_loop (\<lambda>i. for_loop (pair_force pts ms i) [i + 1..<n]) [0..<n]
           (replicate n (0, 0, 0)))"

definition integrate_particle ::
  "vec3 list \<Rightarrow> real list \<Rightarrow> real \<Rightarrow> nat \<Rightarrow> vec3 list \<times> vec3 list \<Rightarrow> (vec3 \<times> vec3) option" where
  "integrate_particle forces ms dt i st = (case st of (pts, vels) \<Rightarrow> do {
     (vx, vy, vz) \<leftarrow> py_index vels i;
     (fx, fy, fz) \<leftarrow> py_index forces i;
     m \<leftarrow> py_index ms i;
     ax \<leftarrow> py_div fx m;
     ay \<leftarrow> py_div fy m;
     az \<leftarrow> py_div fz m;
     let vx = vx + ax * dt;
     let vy = vy + ay * dt;
     let vz = vz + az * dt;
     (px, py, pz) \<leftarrow> py_index pts i;
     Some ((vx, vy, vz), (px + vx * dt, py + vy * dt, pz + vz * dt))
   })"

definition normalize_point :: "vec3 \<Rightarrow> vec3 option" where
  "normalize_point q = (case q of (x, y, z) \<Rightarrow>
     let mag = sqrt (x\<^sup>2 + y\<^sup>2 + z\<^sup>2)
     in if mag > 0 then do {
          nx \<leftarrow> py_div x mag;
          ny \<leftarrow> py_div y mag;
          nz \<leftarrow> py_div z mag;
          Some (nx, ny, nz)
        } else Some (x, y, z))"

definition move_particle ::
  "vec3 list \<Rightarrow> real list \<Rightarrow> real \<Rightarrow> nat \<Rightarrow> vec3 list \<times> vec3 list \<Rightarrow> (vec3 list \<times> vec3 list) option" where
  "move_particle forces ms dt i st = do {
     (v, q) \<leftarrow> integrate_particle forces ms dt i st;
     p \<leftarrow> normalize_point q;
     Some ((fst st)[i := p], (snd st)[i := v])
   }"

definition update_physics :: "real \<Rightarrow> particle_system \<Rightarrow> particle_system option" where
  "update_physics dt ps = do {
     let n = length (points ps);
     forces \<leftarrow> net_forces (points ps) (masses ps);
     (pts, vels) \<leftarrow> for_loop (move_particle forces (masses ps) dt) [0..<n]
                      (points ps, velocities ps);
     Some (ps\<lparr>points := pts, velocities := vels\<rparr>)
   }"

text \<open>
  The Euclidean norm of a position, and the fields whose positions all have norm 1.
\<close>

definition norm3 :: "vec3 \<Rightarrow> real" where
  "norm3 p = (case p of (x, y, z) \<Rightarrow> sqrt (x\<^sup>2 + y\<^sup>2 + z\<^sup>2))"

definition on_sphere :: "(vec3 \<times> color4) list \<Rightarrow> bool" where
  "on_sphere acc \<longleftrightarrow> (\<forall>pc\<in>set acc. norm3 (fst pc) = 1)"

subsection \<open>OpenGLBenchmark.render_pattern (lines 482-559)\<close>

text \<open>
  The calls made to the graphics library, in order. A pattern object is its class and
  its attributes.
\<close>

datatype gl_array = GL_VERTEX_ARRAY | GL_COLOR_ARRAY

datatype gl_call =
    GlClear
  | GlLoadIdentity
  | GlTranslatef real real real
  | GlRotatef real real real real
  | GlScalef real real real
  | GlPushMatrix
  | GlPopMatrix
  | GlEnableClientState gl_array
  | GlDisableClientState gl_array
  | GlVertexPointer "vec3 list"
  | GlColorPointer "color4 list"
  | GlPointSize real
  | GlDrawArrays nat nat
  | GlBegin
  | GlColor4f real real real real
  | GlVertex3f real real real
  | GlEnd
  | GluSphere real nat nat
  | DisplayFlip

datatype pattern_kind =
  FibonacciSphere | PrimeSpiral | MandelbrotSphere | LorenzAttractor | ParticleSystem

record pattern =
  pkind :: pattern_kind
  pstate :: particle_system

text \<open>
  The \<^verbatim>\<open>name\<close> given by each class's \<^verbatim>\<open>__init__\<close>; for \<^verbatim>\<open>ParticleSystem\<close> it is
  the one of the later binding (line 286).
\<close>

definition pattern_name :: "pattern_kind \<Rightarrow> string" where
  "pattern_name k = (case k of
       FibonacciSphere \<Rightarrow> ''Fibonacci Sphere''
     | PrimeSpiral \<Rightarrow> ''Prime Spiral''
     | MandelbrotSphere \<Rightarrow> ''Mandelbrot Sphere''
     | LorenzAttractor \<Rightarrow> ''Lorenz Attractor''
     | ParticleSystem \<Rightarrow> ''Lorenz Attractor'')"

definition new_pattern :: "pattern_kind \<Rightarrow> pattern" where
  "new_pattern k = \<lparr>pkind = k,
     pstate = \<lparr>points = [], colors = [], velocities = [], masses = []\<rparr>\<rparr>"

text \<open>
  \<open>now k i\<close> is the value of \<^verbatim>\<open>time.time()\<close> read for vertex \<open>i\<close> in pass \<open>k\<close>.
\<close>

definition immediate_vertex :: "real \<Rightarrow> nat \<Rightarrow> vec3 \<times> color4 \<Rightarrow> gl_call list" where
  "immediate_vertex t i pc = (case pc of ((x, y, z), (r, g, b, a)) \<Rightarrow>
     let time_factor = t * 0.1;
         brightness = 0.8 + 0.2 * sin (real i * 0.01 + time_factor)
     in [GlColor4f (r * brightness) (g * brightness) (b * brightness) a, GlVertex3f x y z])"

definition immediate_pass ::
  "(nat \<Rightarrow> nat \<Rightarrow> real) \<Rightarrow> vec3 list \<Rightarrow> color4 list \<Rightarrow> nat \<times> real \<Rightarrow> gl_call list" where
  "immediate_pass now pts cols ks = (case ks of (k, psize) \<Rightarrow>
     [GlPointSize psize, GlBegin]
     @ concat (map (\<lambda>(i, pc). immediate_vertex (now k i) i pc) (enumerate 0 (zip pts cols)))
     @ [GlEnd])"

definition draw_points :: "(nat \<Rightarrow> nat \<Rightarrow> real) \<Rightarrow> vec3 list \<Rightarrow> color4 list \<Rightarrow> gl_call list" where
  "draw_points now pts cols =
     (let point_count = length pts
      in if point_count > 50000 then
           [GlEnableClientState GL_VERTEX_ARRAY, GlEnableClientState GL_COLOR_ARRAY,
            GlVertexPointer pts, GlColorPointer cols]
           @ concat (map (\<lambda>psize. [GlPointSize psize, GlDrawArrays 0 point_count]) [1.0, 2.0, 3.0])
           @ [GlDisableClientState GL_VERTEX_ARRAY, GlDisableClientState GL_COLOR_ARRAY]
         else concat (map (immediate_pass now pts cols) (enumerate 0 [1.0, 2.0, 3.0])))"

definition render_overlay_effects :: "real \<Rightarrow> gl_call list" where
  "render_overlay_effects rotation =
     [GlPushMatrix, GlColor4f 0.1 0.2 0.3 0.1]
     @ concat (map (\<lambda>i. [GlPushMatrix, GlRotatef (rotation + real i * 120) 0 1 0,
                           GlTranslatef 0.5 0 0, GlScalef 0.3 0.3 0.3,
                           GluSphere 1.0 20 20, GlPopMatrix]) [0..<3])
     @ [GlPopMatrix]"

definition render_pattern ::
  "(nat \<Rightarrow> nat \<Rightarrow> real) \<Rightarrow> real \<Rightarrow> pattern \<Rightarrow> (gl_call list \<times> pattern) option" where
  "render_pattern now rotation pat = do {
     let prelude = [GlClear, GlLoadIdentity, GlTranslatef 0.0 0.0 (-3.0),
                  GlRotatef rotation 1 1 0, GlRotatef (rotation * 0.7) 0 1 1,
                  GlRotatef (rotation * 0.3) 1 0 1];
     ps \<leftarrow> (if pkind pat = ParticleSystem then update_physics 0.001 (pstate pat)
            else Some (pstate pat));
     Some (prelude @ draw_points now (points ps) (colors ps)
             @ render_overlay_effects rotation @ [DisplayFlip],
           pat\<lparr>pstate := ps\<rparr>)
   }"

text \<open>
  Observations on a sequence of calls: the point size in force at each
  \<^verbatim>\<open>glDrawArrays\<close> and each \<^verbatim>\<open>glBegin\<close>, given the size in force before the
  sequence; whether the sequence holds a \<^verbatim>\<open>glDrawArrays\<close> (the vertex-array path) or
  a \<^verbatim>\<open>glBegin\<close> (the immediate path); the vertices submitted one by one with
  \<^verbatim>\<open>glVertex3f\<close>, each with the color in force at its call, given the color in force
  before the sequence; the calls that hand over or draw whole arrays.
\<close>

fun draw_sizes :: "real \<Rightarrow> gl_call list \<Rightarrow> real list" where
  "draw_sizes cur [] = []"
| "draw_sizes cur (GlPointSize s # tr) = draw_sizes s tr"
| "draw_sizes cur (GlDrawArrays first n # tr) = cur # draw_sizes cur tr"
| "draw_sizes cur (GlBegin # tr) = cur # draw_sizes cur tr"
| "draw_sizes cur (c # tr) = draw_sizes cur tr"

fun is_draw_arrays :: "gl_call \<Rightarrow> bool" where
  "is_draw_arrays (GlDrawArrays first n) = True"
| "is_draw_arrays c = False"

definition batched :: "gl_call list \<Rightarrow> bool" where
  "batched tr = list_ex is_draw_arrays tr"

definition immediate :: "gl_call list \<Rightarrow> bool" where
  "immediate tr = list_ex (\<lambda>c. c = GlBegin) tr"

fun plain_call :: "gl_call \<Rightarrow> bool" where
  "plain_call (GlPointSize s) = False"
| "plain_call (GlDrawArrays first n) = False"
| "plain_call GlBegin = False"
| "plain_call c = True"

fun submitted :: "color4 \<Rightarrow> gl_call list \<Rightarrow> (vec3 \<times> color4) list" where
  "submitted c [] = []"
| "submitted c (GlColor4f r g b a # tr) = submitted (r, g, b, a) tr"
| "submitted c (GlVertex3f x y z # tr) = ((x, y, z), c) # submitted c tr"
| "submitted c (call # tr) = submitted c tr"

fun array_call :: "gl_call \<Rightarrow> bool" where
  "array_call (GlVertexPointer vs) = True"
| "array_call (GlColorPointer cs) = True"
| "array_call (GlDrawArrays first n) = True"
| "array_call c = False"

subsection \<open>The benchmark driver (lines 561-685)\<close>

text \<open>
  The window system, the clock and the graphics library are outside the program. One
  iteration of the render loop sees the events polled, whether the graphics calls of
  \<^verbatim>\<open>render_pattern\<close> succeed, the clock values read per vertex and the time the
  render call took. The wall clock ends each render loop after finitely many frames:
  \<open>loop_of env p k\<close> holds the frames of the loop for the \<open>p\<close>-th pattern at the
  \<open>k\<close>-th density and the elapsed time measured after it.
\<close>

datatype event = QUIT | OTHER_EVENT

record frame =
  events :: "event list"
  gl_ok :: bool
  vertex_clock :: "nat \<Rightarrow> nat \<Rightarrow> real"
  render_time :: real

record render_loop =
  frames :: "frame list"
  elapsed :: real

record env =
  init_ok :: bool
  gen_clock :: "nat \<Rightarrow> nat \<Rightarrow> real"
  loop_of :: "nat \<Rightarrow> nat \<Rightarrow> render_loop"

datatype 'a outcome = Returned 'a | Raised

datatype loop_exit = TimeUp | QuitSeen | RenderRaised

record bench =
  b_result :: pattern_results
  b_rotation :: real

definition generate :: "(nat \<Rightarrow> nat \<Rightarrow> real) \<Rightarrow> pattern \<Rightarrow> real \<Rightarrow> pattern option" where
  "generate clock pat d = do {
     f \<leftarrow> (case pkind pat of
            FibonacciSphere \<Rightarrow> FibonacciSphere_generate clock d
          | PrimeSpiral \<Rightarrow> PrimeSpiral_generate d
          | MandelbrotSphere \<Rightarrow> MandelbrotSphere_generate d
          | LorenzAttractor \<Rightarrow> LorenzAttractor_generate d
          | ParticleSystem \<Rightarrow> ParticleSystem_generate d);
     Some (pat\<lparr>pstate := (pstate pat)\<lparr>points := points f, colors := colors f\<rparr>\<rparr>)
   }"

definition get_point_count :: "pattern \<Rightarrow> nat" where
  "get_point_count pat = length (points (pstate pat))"

text \<open>
  The \<^verbatim>\<open>while\<close> loop of \<^verbatim>\<open>benchmark_pattern\<close> (lines 585-601): the state is the
  pattern, the frame count, the total render time and the rotation.
\<close>

fun render_loop_run ::
  "frame list \<Rightarrow> pattern \<times> nat \<times> real \<times> real \<Rightarrow> loop_exit \<times> pattern \<times> nat \<times> real \<times> real" where
  "render_loop_run [] s = (TimeUp, s)"
| "render_loop_run (f # fs) (pat, n, total_render_time, rot) =
     (if QUIT \<in> set (events f) then (QuitSeen, pat, n, total_render_time, rot)
      else case (if gl_ok f then render_pattern (vertex_clock f) rot pat else None) of
             None \<Rightarrow> (RenderRaised, pat, n, total_render_time, rot)
           | Some (tr, pat') \<Rightarrow>
               render_loop_run fs (pat', n + 1, total_render_time + render_time f, rot + 1.0))"

text \<open>
  The loop over the densities in \<^verbatim>\<open>benchmark_pattern\<close> (lines 565-611); \<open>k\<close> is the
  position of the density in the sweep.
\<close>

fun benchmark_densities ::
  "env \<Rightarrow> nat \<Rightarrow> nat \<Rightarrow> real list \<Rightarrow> pattern \<times> bench \<Rightarrow> bool outcome \<times> pattern \<times> bench" where
  "benchmark_densities env pidx k [] (pat, st) = (Returned True, pat, st)"
| "benchmark_densities env pidx k (d # ds) (pat, st) =
     (case generate (gen_clock env) pat d of
        None \<Rightarrow> (Raised, pat, st)
      | Some pat1 \<Rightarrow>
          let point_count = get_point_count pat1
          in if point_count = 0 then benchmark_densities env pidx (k + 1) ds (pat1, st)
             else (case render_loop_run (frames (loop_of env pidx k)) (pat1, 0, 0, b_rotation st) of
                     (QuitSeen, pat2, n, total_render_time, rot) \<Rightarrow>
                       (Returned False, pat2, st\<lparr>b_rotation := rot\<rparr>)
                   | (RenderRaised, pat2, n, total_render_time, rot) \<Rightarrow>
                       (Raised, pat2, st\<lparr>b_rotation := rot\<rparr>)
                   | (TimeUp, pat2, n, total_render_time, rot) \<Rightarrow>
                       let el = elapsed (loop_of env pidx k);
                           fps_value = (if el > 0 then real n / el else 0);
                           avg_render_time = (if n > 0 then total_render_time / real n else 0)
                       in benchmark_densities env pidx (k + 1) ds
                            (pat2, \<lparr>b_result = add_result (pattern_name (pkind pat2)) d
                                       point_count fps_value avg_render_time (b_result st),
                                    b_rotation = rot\<rparr>)))"

definition benchmark_pattern ::
  "env \<Rightarrow> nat \<Rightarrow> pattern \<Rightarrow> real list \<Rightarrow> bench \<Rightarrow> bool outcome \<times> pattern \<times> bench" where
  "benchmark_pattern env pidx pat ds st = benchmark_densities env pidx 0 ds (pat, st)"

fun run_patterns ::
  "env \<Rightarrow> nat \<Rightarrow> pattern list \<Rightarrow> real list \<Rightarrow> bench \<Rightarrow> bool outcome \<times> bench" where
  "run_patterns env pidx [] ds st = (Returned True, st)"
| "run_patterns env pidx (pat # pats) ds st =
     (case benchmark_pattern env pidx pat ds st of
        (Raised, pat', st') \<Rightarrow> (Raised, st')
      | (Returned False, pat', st') \<Rightarrow> (Returned False, st')
      | (Returned True, pat', st') \<Rightarrow> run_patterns env (pidx + 1) pats ds st')"

text \<open>
  \<^verbatim>\<open>run_benchmark\<close> (lines 613-647): the returned flag, the result files written, the
  summary printed, and the records held in memory when the function returns.
\<close>

record run_result =
  success :: bool
  saved_files :: "pattern_results list"
  printed_summary :: "summary_line list"
  collected :: pattern_results

definition run_benchmark :: "env \<Rightarrow> pattern list \<Rightarrow> real list \<Rightarrow> run_result" where
  "run_benchmark env patterns ds =
     (if \<not> init_ok env
      then \<lparr>success = False, saved_files = [], printed_summary = [], collected = []\<rparr>
      else (case run_patterns env 0 patterns ds \<lparr>b_result = [], b_rotation = 0\<rparr> of
              (Raised, st) \<Rightarrow>
                \<lparr>success = False, saved_files = [], printed_summary = [],
                 collected = b_result st\<rparr>
            | (Returned completed, st) \<Rightarrow>
                \<lparr>success = True, saved_files = [b_result st],
                 printed_summary = get_summary (b_result st), collected = b_result st\<rparr>))"

record args =
  pattern_arg :: "pattern_kind option"
  densities_arg :: "real list"

definition selected_patterns :: "args \<Rightarrow> pattern list" where
  "selected_patterns a = (case pattern_arg a of
       None \<Rightarrow> map new_pattern
                 [FibonacciSphere, PrimeSpiral, MandelbrotSphere, LorenzAttractor, ParticleSystem]
     | Some k \<Rightarrow> [new_pattern k])"

definition main :: "env \<Rightarrow> args \<Rightarrow> nat \<times> run_result" where
  "main env a =
     (let r = run_benchmark env (selected_patterns a) (densities_arg a)
      in (if success r then 0 else 1, r))"

text \<open>
  An example run: the Fibonacci sphere alone at three densities; two frames per render
  loop, the second frame of every loop but the first being the given one.
\<close>

definition ok_frame :: frame where
  "ok_frame = \<lparr>events = [OTHER_EVENT], gl_ok = True, vertex_clock = (\<lambda>k i. 0),
                render_time = 1/100\<rparr>"

definition quit_frame :: frame where
  "quit_frame = ok_frame\<lparr>events := [OTHER_EVENT, QUIT]\<rparr>"

definition failing_frame :: frame where
  "failing_frame = ok_frame\<lparr>gl_ok := False\<rparr>"

definition example_env :: "frame \<Rightarrow> env" where
  "example_env second =
     \<lparr>init_ok = True, gen_clock = (\<lambda>i k. 0),
      loop_of = (\<lambda>pidx k. if k = 0 then \<lparr>frames = [ok_frame, ok_frame], elapsed = 2\<rparr>
                          else \<lparr>frames = [ok_frame, second], elapsed = 2\<rparr>)\<rparr>"

definition example_args :: args where
  "example_args = \<lparr>pattern_arg = Some FibonacciSphere, densities_arg = [1/1000, 1/500, 1/250]\<rparr>"

definition first_record :: pattern_results where
  "first_record = [(''Fibonacci Sphere'',
      [\<lparr>density = 1/1000, rpoints = 10, fps = 1, render_time_ms = 10\<rparr>])]"

section \<open>Properties\<close>

subsection \<open>Result store\<close>





subsection \<open>Point counts of the Fibonacci sphere and the prime spiral\<close>

lemma collect_total:
  "(\<And>x. x \<in> set xs \<Longrightarrow> body x \<noteq> None) \<Longrightarrow> collect body xs = Some (map (\<lambda>x. the (body x)) xs)"
proof (induction xs)
  case Nil
  show ?case by simp
next
  case (Cons a xs)
  then obtain y where "body a = Some y" by fastforce
  with Cons show ?case by simp
qed

lemma nat_py_int: "nat (py_int x) = nat \<lfloor>x\<rfloor>"
proof (cases "0 \<le> x")
  case True
  then show ?thesis by (simp add: py_int_def)
next
  case False
  then have "\<lceil>x\<rceil> \<le> 0" and "\<lfloor>x\<rfloor> \<le> 0"
    by (simp_all add: ceiling_le_iff floor_le_iff)
  with False show ?thesis by (simp add: py_int_def)
qed

lemma fib_point_total:
  assumes "i < nat n"
  shows "fib_point now n i \<noteq> None"
proof -
  have g: "(1 + sqrt 5) / 2 \<noteq> 0"
  proof -
    have "0 \<le> sqrt 5" by simp
    then have "0 < 1 + sqrt 5" by linarith
    then show ?thesis by simp
  qed
  have n: "real_of_int n \<noteq> 0" using assms by auto
  have "0 \<le> 2 * real i / real_of_int n" using assms by simp
  moreover have "2 * real i / real_of_int n \<le> 2" using assms
    by (simp add: divide_le_eq) linarith
  ultimately show ?thesis using g n
    by (simp add: fib_point_def py_div_def py_acos_def Let_def)
qed


lemma isqrt_bounds: "isqrt n * isqrt n \<le> n \<and> n < (isqrt n + 1) * (isqrt n + 1)"
  by (induction n) (auto simp: Let_def)

lemma isqrt_floor_sqrt: "isqrt n = nat \<lfloor>sqrt (real n)\<rfloor>"
proof -
  have "real (isqrt n * isqrt n) \<le> real n"
    using isqrt_bounds [of n] by (simp only: of_nat_le_iff)
  then have "(real (isqrt n))\<^sup>2 \<le> real n"
    by (simp add: power2_eq_square)
  then have a: "real (isqrt n) \<le> sqrt (real n)"
    by (rule real_le_rsqrt)
  have "real n < real ((isqrt n + 1) * (isqrt n + 1))"
    using isqrt_bounds [of n] by (simp only: of_nat_less_iff)
  then have "real n < (real (isqrt n + 1))\<^sup>2"
    by (simp add: power2_eq_square algebra_simps)
  then have b: "sqrt (real n) < real (isqrt n + 1)"
    by (intro real_less_lsqrt) simp_all
  have "\<lfloor>sqrt (real n)\<rfloor> = int (isqrt n)"
    using a b by (simp add: floor_unique)
  then show ?thesis by simp
qed

lemma trial_division_iff: "0 \<notin> set ds \<Longrightarrow> trial_division n ds \<longleftrightarrow> (\<forall>i\<in>set ds. \<not> i dvd n)"
  by (induction ds) (auto simp: dvd_eq_mod_eq_0)


lemma trial_division_prime:
  assumes "2 \<le> n"
  shows "trial_division n [2..<isqrt n + 1] \<longleftrightarrow> is_prime_number n"
proof -
  have iff: "trial_division n [2..<isqrt n + 1] \<longleftrightarrow> (\<forall>i. 2 \<le> i \<and> i \<le> isqrt n \<longrightarrow> \<not> i dvd n)"
    by (subst trial_division_iff) auto
  show ?thesis
  proof
    assume td: "trial_division n [2..<isqrt n + 1]"
    have "m = 1 \<or> m = n" if "m dvd n" for m
    proof (rule ccontr)
      assume neg: "\<not> (m = 1 \<or> m = n)"
      from that obtain k where k: "n = m * k" by (auto simp: dvd_def)
      have m2: "2 \<le> m" using neg k assms by (cases m; cases "m - 1") auto
      have k2: "2 \<le> k" using neg k assms by (cases k; cases "k - 1") auto
      have "m \<le> isqrt n \<or> k \<le> isqrt n"
      proof (rule ccontr)
        assume "\<not> (m \<le> isqrt n \<or> k \<le> isqrt n)"
        then have "isqrt n + 1 \<le> m" "isqrt n + 1 \<le> k" by auto
        then have "(isqrt n + 1) * (isqrt n + 1) \<le> m * k" by (rule mult_le_mono)
        with isqrt_bounds [of n] k show False by simp
      qed
      moreover have "k dvd n" using k by simp
      ultimately show False using td that m2 k2 iff by blast
    qed
    with assms show "is_prime_number n" by (simp add: is_prime_number_def)
  next
    assume pr: "is_prime_number n"
    have "\<not> i dvd n" if "2 \<le> i" "i \<le> isqrt n" for i
    proof
      assume "i dvd n"
      with pr that have "i = n" by (auto simp: is_prime_number_def)
      with that have "n * n \<le> isqrt n * isqrt n" by (intro mult_le_mono) simp_all
      moreover have "isqrt n * isqrt n \<le> n" using isqrt_bounds [of n] by simp
      ultimately have "n * n \<le> n" by (rule le_trans)
      moreover have "2 * n \<le> n * n" using assms by (intro mult_le_mono) simp_all
      ultimately show False using assms by linarith
    qed
    with iff show "trial_division n [2..<isqrt n + 1]" by blast
  qed
qed

lemma set_find_primes: "set (find_primes m) = {p. is_prime_number p \<and> int p < m}"
proof -
  have "p \<in> set (find_primes m) \<longleftrightarrow> is_prime_number p \<and> int p < m" for p
  proof (cases "2 \<le> p")
    case True
    then show ?thesis using trial_division_prime [of p]
      by (auto simp: find_primes_def)
  next
    case False
    then show ?thesis by (auto simp: find_primes_def is_prime_number_def)
  qed
  then show ?thesis by blast
qed

lemma distinct_find_primes: "distinct (find_primes m)"
  by (simp add: find_primes_def)

lemma length_find_primes: "length (find_primes m) = card {p. is_prime_number p \<and> int p < m}"
  using distinct_card [OF distinct_find_primes, of m] by (simp add: set_find_primes)

lemma prime_point_total:
  assumes "i < len" and "2 \<le> p" and "int p < max_num"
  shows "prime_point max_num len (i, p) \<noteq> None"
proof -
  have m: "real_of_int max_num \<noteq> 0" "0 < real_of_int max_num" "1 < real_of_int max_num"
    using assms by auto
  have l: "real len \<noteq> 0" using assms by simp
  have q0: "0 \<le> real i / real len" by simp
  have q1: "real i / real len \<le> 1" using assms by (simp add: divide_le_eq)
  have lm: "ln (real_of_int max_num) \<noteq> 0" using m by simp
  have p: "0 < real p" using assms by simp
  show ?thesis using m l q0 q1 lm p
    by (simp add: prime_point_def py_div_def py_acos_def py_log_def Let_def)
qed

lemma length_collect: "collect body xs = Some ys \<Longrightarrow> length ys = length xs"
  by (induction xs arbitrary: ys) (auto split: bind_splits)

lemma round_double_eval:
  assumes "2 powi e \<le> \<bar>x\<bar>" and "\<bar>x\<bar> < 2 powi (e + 1)"
  shows "round_double x = of_int (round_half_even (x / 2 powi (e - 52))) * 2 powi (e - 52)"
proof -
  have "(0::real) < 2 powi e" by (rule zero_less_power_int) simp
  with assms(1) have pos: "0 < \<bar>x\<bar>" by linarith
  have a: "(2::real) powr real_of_int e = 2 powi e"
    by (rule powr_real_of_int') simp_all
  have b: "(2::real) powr real_of_int (e + 1) = 2 powi (e + 1)"
    by (rule powr_real_of_int') simp_all
  have "(2::real) powr real_of_int e \<le> \<bar>x\<bar> \<and> \<bar>x\<bar> < 2 powr real_of_int (e + 1)"
    using assms by (simp only: a b)
  then have "\<lfloor>log 2 \<bar>x\<bar>\<rfloor> = e"
    by (subst floor_log_eq_powr_iff) (use pos in simp_all)
  moreover have "x \<noteq> 0" using pos by simp
  ultimately show ?thesis by (simp only: round_double_def Let_def if_False)
qed

lemma FibonacciSphere_generate_total:
  assumes "\<bar>py_fmul d 10000\<bar> \<le> max_double"
  shows "\<exists>f. FibonacciSphere_generate now d = Some f
       \<and> length (points f) = nat \<lfloor>py_fmul d 10000\<rfloor>
       \<and> length (colors f) = nat \<lfloor>py_fmul d 10000\<rfloor>"
proof -
  let ?n = "py_int (py_fmul d 10000)"
  have n: "py_int_float (py_fmul d 10000) = Some ?n"
    using assms by (simp add: py_int_float_def)
  have "collect (fib_point now ?n) (py_range ?n)
          = Some (map (\<lambda>x. the (fib_point now ?n x)) (py_range ?n))"
    by (rule collect_total) (simp add: py_range_def fib_point_total)
  then show ?thesis
    by (simp add: FibonacciSphere_generate_def n py_range_def nat_py_int)
qed

lemma PrimeSpiral_generate_total:
  assumes "\<bar>py_fmul d 20000\<bar> \<le> max_double"
  shows "\<exists>f. PrimeSpiral_generate d = Some f
       \<and> length (points f) = card {p. is_prime_number p \<and> int p < \<lfloor>py_fmul d 20000\<rfloor>}
       \<and> length (colors f) = length (points f)"
proof -
  let ?m = "py_int (py_fmul d 20000)"
  let ?ps = "find_primes ?m"
  have m: "py_int_float (py_fmul d 20000) = Some ?m"
    using assms by (simp add: py_int_float_def)
  have tot: "prime_point ?m (length ?ps) ip \<noteq> None" if "ip \<in> set (enumerate 0 ?ps)" for ip
  proof -
    obtain i p where ip: "ip = (i, p)" by (cases ip)
    with that have "i < length ?ps" "p \<in> set ?ps"
      by (auto simp: in_set_enumerate_eq)
    then have "i < length ?ps" "2 \<le> p" "int p < ?m"
      by (auto simp: set_find_primes is_prime_number_def)
    then show ?thesis unfolding ip by (rule prime_point_total)
  qed
  have "collect (prime_point ?m (length ?ps)) (enumerate 0 ?ps)
          = Some (map (\<lambda>x. the (prime_point ?m (length ?ps) x)) (enumerate 0 ?ps))"
    by (rule collect_total) (rule tot)
  moreover have "{p. is_prime_number p \<and> int p < ?m}
      = {p. is_prime_number p \<and> int p < \<lfloor>py_fmul d 20000\<rfloor>}"
    by (auto simp: py_int_def is_prime_number_def) linarith+
  ultimately show ?thesis
    by (simp add: PrimeSpiral_generate_def m Let_def length_find_primes)
qed


lemma small_le_max_double: "\<bar>x\<bar> \<le> 2 ^ 53 \<Longrightarrow> \<bar>x\<bar> \<le> max_double"
proof -
  have "(2::real) ^ 53 \<le> max_double" by (simp add: max_double_def)
  then show "\<bar>x\<bar> \<le> 2 ^ 53 \<Longrightarrow> \<bar>x\<bar> \<le> max_double" by linarith
qed

text \<open>The doubles and products used in the examples.\<close>

lemma double_3_10: "round_double (3/10) = 5404319552844595 / 2 ^ 54"
  using round_double_eval [of "-2" "3/10"] by (simp add: round_half_even_def)

lemma product_double_3_10: "py_fmul (round_double (3/10)) 10000 = 3000"
  using round_double_eval [of 11 "5404319552844595 / 2 ^ 54 * 10000"]
  by (simp add: py_fmul_def double_3_10 round_half_even_def)

lemma double_7_10000: "round_double (7/10000) = 6456360425798343 / 2 ^ 63"
  using round_double_eval [of "-11" "7/10000"] by (simp add: round_half_even_def)

lemma product_double_7_10000: "py_fmul (round_double (7/10000)) 20000 = 14"
  using round_double_eval [of 3 "6456360425798343 / 2 ^ 63 * 20000"]
  by (simp add: py_fmul_def double_7_10000 round_half_even_def)

lemma product_1_200: "py_fmul (1/200) 20000 = 100"
  using round_double_eval [of 6 100] by (simp add: py_fmul_def round_half_even_def)


lemma double_1_200: "round_double (1/200) = 5764607523034235 / 2 ^ 60"
  using round_double_eval [of "-8" "1/200"] by (simp add: round_half_even_def)

lemma product_double_1_200: "py_fmul (round_double (1/200)) 20000 = 100"
  using round_double_eval [of 6 "5764607523034235 / 2 ^ 60 * 20000"]
  by (simp add: py_fmul_def double_1_200 round_half_even_def)

lemma product_1_10000: "py_fmul (1/10000) 10000 = 1"
  using round_double_eval [of 0 1] by (simp add: py_fmul_def round_half_even_def)

lemma product_1_1000: "py_fmul (1/1000) 10000 = 10"
  using round_double_eval [of 3 10] by (simp add: py_fmul_def round_half_even_def)

lemma product_1_500: "py_fmul (1/500) 10000 = 20"
  using round_double_eval [of 4 20] by (simp add: py_fmul_def round_half_even_def)



lemma length_find_primes_100: "length (find_primes 100) = 25"
  by code_simp

lemma length_find_primes_14: "length (find_primes 14) = 6"
  by code_simp

lemma length_find_primes_13: "length (find_primes 13) = 5"
  by code_simp




text \<open>
  The count is the integer part of the product as rounded, which need not be that of
  the exact product. The double nearest to 0.3, times 10000, is a little less than
  3000 and rounds to 3000.0: 3000 points, where the exact product has integer part
  2999. The double nearest to 0.0007, times 20000, rounds to 14.0: the 6 primes below
  14, where the exact product has integer part 13, with 5 primes below it.
\<close>

lemma count_of_rounded_product:
  "length (points (the (FibonacciSphere_generate now (round_double (3/10))))) = 3000 \<and>
   \<lfloor>round_double (3/10) * 10000\<rfloor> = 2999 \<and>
   length (points (the (PrimeSpiral_generate (round_double (7/10000))))) = 6 \<and>
   card {p. is_prime_number p \<and> int p < \<lfloor>round_double (7/10000) * 20000\<rfloor>} = 5"
proof -
  have "\<bar>py_fmul (round_double (3/10)) 10000\<bar> \<le> max_double"
    by (intro small_le_max_double) (simp add: product_double_3_10)
  from FibonacciSphere_generate_total [OF this, of now]
  have a: "length (points (the (FibonacciSphere_generate now (round_double (3/10))))) = 3000"
    by (auto simp: product_double_3_10)
  have b: "\<lfloor>round_double (3/10) * 10000\<rfloor> = (2999::int)"
    by (simp add: double_3_10)
  have "\<bar>py_fmul (round_double (7/10000)) 20000\<bar> \<le> max_double"
    by (intro small_le_max_double) (simp add: product_double_7_10000)
  from PrimeSpiral_generate_total [OF this]
  have c: "length (points (the (PrimeSpiral_generate (round_double (7/10000))))) = 6"
    using length_find_primes [of 14]
    by (auto simp: product_double_7_10000 length_find_primes_14)
  have "\<lfloor>round_double (7/10000) * 20000\<rfloor> = (13::int)"
    by (simp add: double_7_10000)
  then have d: "card {p. is_prime_number p \<and> int p < \<lfloor>round_double (7/10000) * 20000\<rfloor>} = 5"
    using length_find_primes [of 13] by (simp add: length_find_primes_13)
  show ?thesis using a b c d by simp
qed

subsection \<open>The Mandelbrot sphere at low density\<close>

lemma py_int_le_0: "x < 1 \<Longrightarrow> py_int x \<le> 0"
  by (auto simp: py_int_def floor_le_iff ceiling_le_iff)

lemma mandelbrot_iterations_nonpos: "max_iter \<le> 0 \<Longrightarrow> mandelbrot_iterations c max_iter = max_iter"
  by (simp add: mandelbrot_iterations_def py_range_def)

lemma mandel_cell_dropped:
  assumes "max_iter \<le> 0" and "i < nat resolution" and "j < nat resolution"
  shows "mandel_cell resolution max_iter layers (layer, i, j) = Some None"
proof -
  have "real_of_int resolution \<noteq> 0" using assms by auto
  then show ?thesis using assms(1)
    by (simp add: mandel_cell_def py_div_def Let_def mandelbrot_iterations_nonpos)
qed

lemma collect_const:
  "(\<And>x. x \<in> set xs \<Longrightarrow> body x = Some v) \<Longrightarrow> collect body xs = Some (replicate (length xs) v)"
  by (induction xs) simp_all

lemma map_filter_replicate_None: "List.map_filter (\<lambda>c. c) (replicate n None) = []"
  by (induction n) (simp_all add: List.map_filter_simps)

lemma MandelbrotSphere_generate_low:
  assumes "d < 1/50"
  shows "MandelbrotSphere_generate d = Some \<lparr>points = [], colors = []\<rparr>"
proof -
  let ?res = "py_int (d * 100)" and ?mi = "py_int (d * 50)"
  let ?cells = "[(layer, i, j). layer \<leftarrow> [0..<3], i \<leftarrow> py_range ?res, j \<leftarrow> py_range ?res]"
  have mi: "?mi \<le> 0" using assms by (intro py_int_le_0) simp
  have "collect (mandel_cell ?res ?mi 3) ?cells = Some (replicate (length ?cells) None)"
  proof (rule collect_const)
    fix x assume "x \<in> set ?cells"
    then obtain layer i j where "x = (layer, i, j)" "i < nat ?res" "j < nat ?res"
      by (auto simp: py_range_def)
    then show "mandel_cell ?res ?mi 3 x = Some None"
      using mandel_cell_dropped [OF mi] by simp
  qed
  then show ?thesis
    by (simp add: MandelbrotSphere_generate_def Let_def map_filter_replicate_None)
qed

text \<open>
  C10. For every density \<open>d\<close> with \<open>int (d * 50) = 0\<close> (then \<open>d < 0.02\<close>),
  \<^verbatim>\<open>mandelbrot_iterations\<close> returns 0 for every sample, so the test
  \<^verbatim>\<open>iterations < max_iter\<close> fails in every grid cell and
  \<^verbatim>\<open>MandelbrotSphere.generate\<close> returns an empty point field.
\<close>

theorem mandelbrot_low_density_empty:
  "py_int (d * 50) = 0 \<longrightarrow>
     d < 1/50 \<and> (\<forall>c. mandelbrot_iterations c (py_int (d * 50)) = 0) \<and>
     MandelbrotSphere_generate d = Some \<lparr>points = [], colors = []\<rparr>"
proof
  assume z: "py_int (d * 50) = 0"
  have "d * 50 < 1"
  proof (rule ccontr)
    assume "\<not> d * 50 < 1"
    then have "1 \<le> \<lfloor>d * 50\<rfloor>" "0 \<le> d * 50" by (simp_all add: le_floor_iff)
    with z show False by (simp add: py_int_def)
  qed
  then have d: "d < 1/50" by simp
  from z have "\<forall>c. mandelbrot_iterations c (py_int (d * 50)) = 0"
    by (simp add: mandelbrot_iterations_nonpos)
  with d MandelbrotSphere_generate_low [OF d] show
    "d < 1/50 \<and> (\<forall>c. mandelbrot_iterations c (py_int (d * 50)) = 0) \<and>
     MandelbrotSphere_generate d = Some \<lparr>points = [], colors = []\<rparr>" by simp
qed

theorem mandelbrot_low_density_empty_witness:
  "py_int (1/100 * 50) = 0 \<and> mandelbrot_iterations (Complex (-2) (-2)) 0 = 0 \<and>
   MandelbrotSphere_generate (1/100) = Some \<lparr>points = [], colors = []\<rparr>"
  using mandelbrot_low_density_empty [of "1/100"]
  by (simp add: py_int_def)

subsection \<open>Positions and the unit sphere\<close>

lemma unit_sphere_point: "norm3 (sin p * cos t, sin p * sin t, cos p) = 1"
proof -
  have "(sin p * cos t)\<^sup>2 + (sin p * sin t)\<^sup>2
          = (sin p)\<^sup>2 * ((cos t)\<^sup>2 + (sin t)\<^sup>2)"
    by (simp only: power_mult_distrib distrib_left)
  also have "\<dots> = (sin p)\<^sup>2" by simp
  finally have "(sin p * cos t)\<^sup>2 + (sin p * sin t)\<^sup>2 + (cos p)\<^sup>2 = 1"
    by simp
  then show ?thesis by (simp only: norm3_def prod.case real_sqrt_one)
qed

lemma normalized_norm3:
  assumes "m = sqrt (a\<^sup>2 + b\<^sup>2 + c\<^sup>2)" and "0 < m"
  shows "norm3 (a / m, b / m, c / m) = 1"
proof -
  have m2: "m\<^sup>2 = a\<^sup>2 + b\<^sup>2 + c\<^sup>2" using assms(1) by simp
  have "(a / m)\<^sup>2 + (b / m)\<^sup>2 + (c / m)\<^sup>2 = (a\<^sup>2 + b\<^sup>2 + c\<^sup>2) / m\<^sup>2"
    by (simp only: power_divide add_divide_distrib)
  also have "\<dots> = m\<^sup>2 / m\<^sup>2" by (simp only: m2)
  also have "\<dots> = 1" using assms(2) by simp
  finally show ?thesis by (simp only: norm3_def prod.case real_sqrt_one)
qed

lemma collect_elem:
  "collect body xs = Some ys \<Longrightarrow> y \<in> set ys \<Longrightarrow> \<exists>x\<in>set xs. body x = Some y"
  by (induction xs arbitrary: ys) (auto split: bind_splits)

lemma fib_point_norm: "fib_point now n i = Some (p, c) \<Longrightarrow> norm3 p = 1"
  by (auto simp: fib_point_def Let_def unit_sphere_point split: bind_splits)

lemma FibonacciSphere_on_sphere:
  assumes "FibonacciSphere_generate now d = Some f" and "p \<in> set (points f)"
  shows "norm3 p = 1"
proof -
  from assms(1) obtain n pcs where
    c: "collect (fib_point now n) (py_range n) = Some pcs"
    and f: "f = \<lparr>points = map fst pcs, colors = map snd pcs\<rparr>"
    by (auto simp: FibonacciSphere_generate_def split: bind_splits)
  from assms(2) f obtain col where "(p, col) \<in> set pcs" by auto
  with c obtain i where "fib_point now n i = Some (p, col)"
    using collect_elem by fastforce
  then show ?thesis by (rule fib_point_norm)
qed

lemma for_loop_invariant:
  assumes "for_loop body xs s = Some s'" and "P s"
    and "\<And>x t t'. x \<in> set xs \<Longrightarrow> P t \<Longrightarrow> body x t = Some t' \<Longrightarrow> P t'"
  shows "P s'"
  using assms
proof (induction xs arbitrary: s)
  case Nil
  then show ?case by simp
next
  case (Cons x xs)
  from Cons.prems(1) obtain t where t: "body x s = Some t" "for_loop body xs t = Some s'"
    by (auto split: bind_splits)
  have "P t" using Cons.prems(3) [of x s t] Cons.prems(2) t(1) by simp
  then show ?case
  proof (rule Cons.IH [OF t(2)])
    fix y u u'
    assume "y \<in> set xs" "P u" "body y u = Some u'"
    then show "P u'" using Cons.prems(3) [of y u u'] by simp
  qed
qed

lemma for_loop_total:
  assumes "P s"
    and "\<And>x t. x \<in> set xs \<Longrightarrow> P t \<Longrightarrow> \<exists>t'. body x t = Some t' \<and> P t'"
  shows "\<exists>s'. for_loop body xs s = Some s' \<and> P s'"
  using assms
proof (induction xs arbitrary: s)
  case Nil
  then show ?case by simp
next
  case (Cons x xs)
  from Cons.prems(2) [of x s] Cons.prems(1) obtain t where t: "body x s = Some t" "P t"
    by auto
  from Cons.IH [OF t(2)] Cons.prems(2) obtain s' where "for_loop body xs t = Some s'" "P s'"
    by auto
  with t show ?case by simp
qed

lemma lorenz_step_on_sphere:
  assumes "lorenz_step as a steps i (xyz, acc) = Some (xyz', acc')" and "on_sphere acc"
  shows "on_sphere acc'"
  using assms
  by (cases xyz)
     (auto simp: lorenz_step_def Let_def py_div_def on_sphere_def normalized_norm3
           split: bind_splits if_splits)

lemma lorenz_step_total:
  assumes "i < nat steps" and "0 < as"
  shows "lorenz_step as a steps i (xyz, acc) \<noteq> None"
proof -
  have "real_of_int steps \<noteq> 0" using assms by auto
  then show ?thesis using assms(2)
    by (cases xyz) (simp add: lorenz_step_def Let_def py_div_def)
qed

lemma lorenz_attractor_on_sphere:
  assumes "lorenz_attractor as d a acc = Some acc'" and "on_sphere acc"
  shows "on_sphere acc'"
proof -
  let ?steps = "py_int (d * 5000)"
  from assms(1) obtain xyz0 xyz where
    l: "for_loop (lorenz_step as a ?steps) (py_range ?steps) (xyz0, acc) = Some (xyz, acc')"
    by (auto simp: lorenz_attractor_def Let_def split: bind_splits)
  have "on_sphere (snd (xyz, acc'))"
  proof (rule for_loop_invariant [OF l, where P = "\<lambda>s. on_sphere (snd s)"])
    show "on_sphere (snd (xyz0, acc))" using assms(2) by simp
  next
    fix i t t'
    assume "on_sphere (snd t)" "lorenz_step as a ?steps i t = Some t'"
    then show "on_sphere (snd t')"
      using lorenz_step_on_sphere [of as a ?steps i "fst t" "snd t" "fst t'" "snd t'"] by simp
  qed
  then show ?thesis by simp
qed

lemma lorenz_attractor_total: "0 < as \<Longrightarrow> lorenz_attractor as d a acc \<noteq> None"
proof -
  assume as: "0 < as"
  let ?steps = "py_int (d * 5000)"
  let ?init = "(1.0 + real a, 1.0 - real a * 0.5, 1.0 + real a * 0.3)"
  have "\<exists>s'. for_loop (lorenz_step as a ?steps) (py_range ?steps) (?init, acc) = Some s' \<and> True"
  proof (rule for_loop_total)
    fix i t
    assume "i \<in> set (py_range ?steps)"
    then have "i < nat ?steps" by (simp add: py_range_def)
    then have "lorenz_step as a ?steps i (fst t, snd t) \<noteq> None"
      using as by (rule lorenz_step_total)
    then show "\<exists>t'. lorenz_step as a ?steps i t = Some t' \<and> True" by auto
  qed simp
  then show ?thesis
    by (auto simp: lorenz_attractor_def Let_def split: prod.splits)
qed

lemma LorenzAttractor_total: "LorenzAttractor_generate d \<noteq> None"
proof -
  have "\<exists>s'. for_loop (lorenz_attractor 3 d) [0..<3] [] = Some s' \<and> True"
    by (rule for_loop_total) (use lorenz_attractor_total [of 3 d] in auto)
  then show ?thesis by (auto simp: LorenzAttractor_generate_def Let_def)
qed

lemma LorenzAttractor_on_sphere:
  assumes "LorenzAttractor_generate d = Some f" and "p \<in> set (points f)"
  shows "norm3 p = 1"
proof -
  from assms(1) obtain pcs where
    l: "for_loop (lorenz_attractor 3 d) [0..<3] [] = Some pcs"
    and f: "f = \<lparr>points = map fst pcs, colors = map snd pcs\<rparr>"
    by (auto simp: LorenzAttractor_generate_def Let_def split: bind_splits)
  have "on_sphere pcs"
    by (rule for_loop_invariant [OF l, where P = on_sphere])
       (simp_all add: on_sphere_def lorenz_attractor_on_sphere [unfolded on_sphere_def])
  with assms(2) f show ?thesis by (auto simp: on_sphere_def)
qed

lemma ParticleSystem_generate_empty:
  "ParticleSystem_generate d = Some \<lparr>points = [], colors = []\<rparr>"
  by (simp add: ParticleSystem_generate_def particle_attractor_def Let_def upt_rec)

lemma offset_norm_bound:
  fixes ox oy :: real
  assumes "\<bar>ox\<bar> \<le> 1/10" and "\<bar>oy\<bar> \<le> 1/10"
  shows "\<bar>norm3 (sin p * cos t + ox, sin p * sin t + oy, cos p) - 1\<bar> \<le> 3/20"
proof -
  define a b c where "a = sin p * cos t" and "b = sin p * sin t" and "c = cos p"
  define s where "s = sqrt (ox\<^sup>2 + oy\<^sup>2)"
  define N2 where "N2 = (a + ox)\<^sup>2 + (b + oy)\<^sup>2 + c\<^sup>2"
  have unit: "a\<^sup>2 + b\<^sup>2 + c\<^sup>2 = 1"
  proof -
    have "a\<^sup>2 + b\<^sup>2 = (sin p)\<^sup>2 * ((cos t)\<^sup>2 + (sin t)\<^sup>2)"
      unfolding a_def b_def by (simp only: power_mult_distrib distrib_left)
    then show ?thesis by (simp add: c_def)
  qed
  have ab: "a\<^sup>2 + b\<^sup>2 \<le> 1" using unit zero_le_power2 [of c] by linarith
  have s0: "0 \<le> s" by (simp add: s_def)
  have s2: "s\<^sup>2 = ox\<^sup>2 + oy\<^sup>2" by (simp add: s_def)
  have "ox\<^sup>2 \<le> (1/10)\<^sup>2"
    by (subst power2_le_iff_abs_le) (use assms in simp_all)
  moreover have "oy\<^sup>2 \<le> (1/10)\<^sup>2"
    by (subst power2_le_iff_abs_le) (use assms in simp_all)
  ultimately have "ox\<^sup>2 + oy\<^sup>2 \<le> (3/20)\<^sup>2" by (simp add: power2_eq_square)
  then have s15: "s \<le> 3/20" unfolding s_def by (intro real_le_lsqrt) simp_all
  have "(a * ox + b * oy)\<^sup>2 + (a * oy - b * ox)\<^sup>2 = (a\<^sup>2 + b\<^sup>2) * (ox\<^sup>2 + oy\<^sup>2)"
    by (simp add: power2_eq_square algebra_simps)
  then have "(a * ox + b * oy)\<^sup>2 \<le> (a\<^sup>2 + b\<^sup>2) * (ox\<^sup>2 + oy\<^sup>2)"
    using zero_le_power2 [of "a * oy - b * ox"] by linarith
  also have "\<dots> = (a\<^sup>2 + b\<^sup>2) * s\<^sup>2" by (simp only: s2)
  also have "\<dots> \<le> 1 * s\<^sup>2" using ab by (intro mult_right_mono) simp_all
  finally have "(a * ox + b * oy)\<^sup>2 \<le> s\<^sup>2" by simp
  then have "\<bar>a * ox + b * oy\<bar> \<le> \<bar>s\<bar>" by (simp only: abs_le_square_iff)
  then have dot: "\<bar>a * ox + b * oy\<bar> \<le> s" using s0 by simp
  have N2: "N2 = 1 + 2 * (a * ox + b * oy) + s\<^sup>2"
    using unit s2 unfolding N2_def by (simp add: power2_eq_square algebra_simps)
  have up: "N2 \<le> (1 + s)\<^sup>2" using dot N2 by (simp add: power2_eq_square algebra_simps)
  have lo: "(1 - s)\<^sup>2 \<le> N2" using dot N2 by (simp add: power2_eq_square algebra_simps)
  have "sqrt N2 \<le> 1 + s" using up s0 by (intro real_le_lsqrt) simp_all
  moreover have "1 - s \<le> sqrt N2" using lo by (rule real_le_rsqrt)
  ultimately have "\<bar>sqrt N2 - 1\<bar> \<le> 3/20" using s15 by linarith
  then show ?thesis by (simp add: norm3_def N2_def a_def b_def c_def)
qed

lemma prime_point_norm:
  assumes "prime_point m len ip = Some (q, col)"
  shows "\<bar>norm3 q - 1\<bar> \<le> 3/20"
proof -
  obtain i pr where ip: "ip = (i, pr)" by (cases ip)
  have a: "\<bar>sin (real pr * 0.001) * 0.1\<bar> \<le> 1/10"
    using abs_sin_le_one [of "real pr * 0.001"] by (simp add: abs_mult)
  have b: "\<bar>cos (real pr * 0.0007) * 0.1\<bar> \<le> 1/10"
    using abs_cos_le_one [of "real pr * 0.0007"] by (simp add: abs_mult)
  from assms obtain ph t where "q = (sin ph * cos t + sin (real pr * 0.001) * 0.1,
      sin ph * sin t + cos (real pr * 0.0007) * 0.1, cos ph)"
    unfolding ip by (auto simp: prime_point_def Let_def split: bind_splits)
  then show ?thesis using offset_norm_bound [OF a b] by simp
qed

lemma PrimeSpiral_near_sphere:
  assumes "PrimeSpiral_generate d = Some f" and "p \<in> set (points f)"
  shows "\<bar>norm3 p - 1\<bar> \<le> 3/20"
proof -
  from assms(1) obtain m pcs where
    c: "collect (prime_point m (length (find_primes m))) (enumerate 0 (find_primes m)) = Some pcs"
    and f: "f = \<lparr>points = map fst pcs, colors = map snd pcs\<rparr>"
    by (auto simp: PrimeSpiral_generate_def Let_def split: bind_splits)
  from assms(2) f obtain col where "(p, col) \<in> set pcs" by auto
  with c obtain ip where "prime_point m (length (find_primes m)) ip = Some (p, col)"
    using collect_elem by fastforce
  then show ?thesis by (rule prime_point_norm)
qed

lemma find_primes_100:
  "find_primes 100 = [2, 3, 5, 7, 11, 13, 17, 19, 23, 29, 31, 37, 41, 43, 47, 53, 59, 61,
     67, 71, 73, 79, 83, 89, 97]"
  by code_simp

text \<open>
  At density 0.005 the bound is 100: the product of \<open>1/200\<close> and 20000 is exact, and
  that of the double nearest to 0.005 rounds to 100.0 as well (lemma
  \<open>product_double_1_200\<close>). The first prime, 2, has index 0: \<open>phi\<close> is \<open>acos 1 = 0\<close>, the
  point of the sphere is the pole \<open>(0, 0, 1)\<close>, and the offset moves it off the sphere.
\<close>

lemma PrimeSpiral_first_point:
  "\<exists>ps cols. PrimeSpiral_generate (1/200) =
     Some \<lparr>points = (sin (2 * 0.001) * 0.1, cos (2 * 0.0007) * 0.1, 1) # ps, colors = cols\<rparr>"
proof -
  let ?ps = "find_primes 100"
  have "(100::real) \<le> max_double" by (simp add: max_double_def)
  then have m: "py_int_float (py_fmul (1/200) 20000) = Some 100"
    by (simp add: product_1_200 py_int_float_def py_int_def)
  have tot: "prime_point 100 25 ip \<noteq> None" if "ip \<in> set (enumerate 0 ?ps)" for ip
  proof -
    obtain i p where ip: "ip = (i, p)" by (cases ip)
    with that have "i < length ?ps" "p \<in> set ?ps"
      by (auto simp: in_set_enumerate_eq)
    then have "i < 25" "2 \<le> p" "int p < 100"
      by (auto simp: set_find_primes is_prime_number_def length_find_primes_100)
    then show ?thesis unfolding ip by (rule prime_point_total)
  qed
  have c: "collect (prime_point 100 25) (enumerate 0 ?ps)
          = Some (map (\<lambda>x. the (prime_point 100 25 x)) (enumerate 0 ?ps))"
    by (rule collect_total) (rule tot)
  have e: "enumerate 0 ?ps = (0, 2) # enumerate 1 (tl ?ps)"
    by (simp add: find_primes_100)
  have p0: "fst (the (prime_point 100 25 (0, 2)))
      = (sin (2 * 0.001) * 0.1, cos (2 * 0.0007) * 0.1, 1)"
    by (simp add: prime_point_def py_div_def py_acos_def py_log_def Let_def)
  have "map (\<lambda>x. the (prime_point 100 25 x)) (enumerate 0 ?ps)
      = the (prime_point 100 25 (0, 2))
        # map (\<lambda>x. the (prime_point 100 25 x)) (enumerate 1 (tl ?ps))"
    by (simp only: e list.map)
  with c obtain y ys where
    c2: "collect (prime_point 100 25) (enumerate 0 ?ps) = Some (y # ys)"
    and y: "y = the (prime_point 100 25 (0, 2))"
    by simp
  show ?thesis
    by (simp add: PrimeSpiral_generate_def m Let_def length_find_primes_100 c2 y p0)
qed

lemma cos_small_ge_half: "1/2 \<le> cos (2 * 0.0007 :: real)"
proof -
  have "cos (pi / 3) \<le> cos (2 * 0.0007 :: real)"
    using pi_ge_two by (intro cos_monotone_0_pi_le) simp_all
  then show ?thesis by (simp add: cos_60)
qed

lemma first_prime_point_norm:
  "1001/1000 < norm3 (sin (2 * 0.001) * 0.1, cos (2 * 0.0007) * 0.1, 1)"
proof -
  define A :: real where "A = (sin (2 * 0.001) * 0.1)\<^sup>2"
  define B :: real where "B = (cos (2 * 0.0007) * 0.1)\<^sup>2"
  have "1/20 \<le> cos (2 * 0.0007 :: real) * 0.1"
    using cos_small_ge_half by simp
  then have "(1/20)\<^sup>2 \<le> B"
    unfolding B_def by (intro power_mono) simp_all
  then have B: "1/400 \<le> B" by (simp add: power2_eq_square)
  have A: "0 \<le> A" by (simp add: A_def)
  have "(1001/1000)\<^sup>2 < A + B + 1\<^sup>2"
    using A B by (simp add: power2_eq_square)
  then have "1001/1000 < sqrt (A + B + 1\<^sup>2)"
    by (rule real_less_rsqrt)
  then show ?thesis by (simp only: norm3_def prod.case A_def B_def)
qed

lemma new_particle_norm: "norm3 (fst (new_particle rnd i)) = 1"
  by (simp add: new_particle_def Let_def unit_sphere_point)

lemma ParticleSystem_first_on_sphere:
  "p \<in> set (points (ParticleSystem_generate_first rnd d)) \<Longrightarrow> norm3 p = 1"
  by (auto simp: ParticleSystem_generate_first_def Let_def new_particle_norm)

lemma py_uniform_range:
  assumes "0 \<le> u" and "u < 1" and "a < b"
  shows "a \<le> py_uniform a b u \<and> py_uniform a b u < b"
proof -
  have "0 \<le> (b - a) * u" using assms by simp
  moreover have "(b - a) * u < (b - a) * 1" using assms by (intro mult_strict_left_mono) simp_all
  ultimately show ?thesis by (simp add: py_uniform_def)
qed

lemma ParticleSystem_first_lengths:
  "length (points (ParticleSystem_generate_first rnd d)) = nat (py_int (d * 5000)) \<and>
   length (colors (ParticleSystem_generate_first rnd d)) = nat (py_int (d * 5000)) \<and>
   length (velocities (ParticleSystem_generate_first rnd d)) = nat (py_int (d * 5000)) \<and>
   length (masses (ParticleSystem_generate_first rnd d)) = nat (py_int (d * 5000))"
  by (simp add: ParticleSystem_generate_first_def Let_def py_range_def)

lemma ParticleSystem_first_ranges:
  assumes "\<And>i k. 0 \<le> rnd i k \<and> rnd i k < 1"
  shows "\<forall>(vx, vy, vz)\<in>set (velocities (ParticleSystem_generate_first rnd d)).
           -0.01 \<le> vx \<and> vx < 0.01 \<and> -0.01 \<le> vy \<and> vy < 0.01 \<and> -0.01 \<le> vz \<and> vz < 0.01"
    and "\<forall>m\<in>set (masses (ParticleSystem_generate_first rnd d)). 0.5 \<le> m \<and> m < 2.0"
proof -
  have u: "a \<le> py_uniform a b (rnd i k) \<and> py_uniform a b (rnd i k) < b" if "a < b" for a b i k
    using assms [of i k] that by (intro py_uniform_range) simp_all
  show "\<forall>(vx, vy, vz)\<in>set (velocities (ParticleSystem_generate_first rnd d)).
           -0.01 \<le> vx \<and> vx < 0.01 \<and> -0.01 \<le> vy \<and> vy < 0.01 \<and> -0.01 \<le> vz \<and> vz < 0.01"
    using u [of "-0.01" "0.01"]
    by (auto simp: ParticleSystem_generate_first_def Let_def new_particle_def)
  show "\<forall>m\<in>set (masses (ParticleSystem_generate_first rnd d)). 0.5 \<le> m \<and> m < 2.0"
    using u [of "0.5" "2.0"]
    by (auto simp: ParticleSystem_generate_first_def Let_def new_particle_def)
qed

lemma lorenz_step_grows:
  "lorenz_step as a steps i (xyz, acc) = Some (xyz', acc') \<Longrightarrow> length acc \<le> length acc'"
  by (cases xyz) (auto simp: lorenz_step_def Let_def split: bind_splits if_splits)

lemma lorenz_attractor_grows:
  assumes "lorenz_attractor as d a acc = Some acc'"
  shows "length acc \<le> length acc'"
proof -
  let ?steps = "py_int (d * 5000)"
  from assms obtain xyz0 xyz where
    l: "for_loop (lorenz_step as a ?steps) (py_range ?steps) (xyz0, acc) = Some (xyz, acc')"
    by (auto simp: lorenz_attractor_def Let_def split: bind_splits)
  have "length acc \<le> length (snd (xyz, acc'))"
  proof (rule for_loop_invariant [OF l, where P = "\<lambda>s. length acc \<le> length (snd s)"])
    fix i t t'
    assume "length acc \<le> length (snd t)" "lorenz_step as a ?steps i t = Some t'"
    then show "length acc \<le> length (snd t')"
      using lorenz_step_grows [of as a ?steps i "fst t" "snd t" "fst t'" "snd t'"] by simp
  qed simp
  then show ?thesis by simp
qed

lemma lorenz_first_step:
  "lorenz_step 3 0 1 0 ((1, 1, 1), []) = Some (xyz, acc) \<Longrightarrow> acc \<noteq> []"
proof -
  have pos: "0 < 1 + a\<^sup>2 + b\<^sup>2" for a b :: real
    using zero_le_power2 [of a] zero_le_power2 [of b] by linarith
  show "lorenz_step 3 0 1 0 ((1, 1, 1), []) = Some (xyz, acc) \<Longrightarrow> acc \<noteq> []"
    by (auto simp: lorenz_step_def Let_def pos split: bind_splits if_splits)
qed

lemma LorenzAttractor_nonempty:
  assumes "LorenzAttractor_generate (1/5000) = Some f"
  shows "points f \<noteq> []"
proof -
  from assms obtain a1 a2 a3 where
    1: "lorenz_attractor 3 (1/5000) 0 [] = Some a1" and
    2: "lorenz_attractor 3 (1/5000) 1 a1 = Some a2" and
    3: "lorenz_attractor 3 (1/5000) (Suc (Suc 0)) a2 = Some a3" and
    f: "f = \<lparr>points = map fst a3, colors = map snd a3\<rparr>"
    by (auto simp: LorenzAttractor_generate_def Let_def upt_rec split: bind_splits)
  from 1 obtain xyz where "lorenz_step 3 0 1 0 ((1, 1, 1), []) = Some (xyz, a1)"
    by (auto simp: lorenz_attractor_def Let_def py_int_def py_range_def split: bind_splits)
  then have "a1 \<noteq> []" by (rule lorenz_first_step)
  then have "0 < length a1" by simp
  also have "\<dots> \<le> length a2" using 2 by (rule lorenz_attractor_grows)
  also have "\<dots> \<le> length a3" using 3 by (rule lorenz_attractor_grows)
  finally show ?thesis using f by simp
qed

text \<open>
  C2 (amended). In exact arithmetic, for every density, every position appended by
  \<^verbatim>\<open>FibonacciSphere.generate\<close>, by \<^verbatim>\<open>LorenzAttractor.generate\<close> and by
  \<^verbatim>\<open>ParticleSystem.generate\<close> has Euclidean norm 1. Every position appended by
  \<^verbatim>\<open>PrimeSpiral.generate\<close> is a point of the unit sphere moved by
  \<open>(0.1 * sin (0.001 * p), 0.1 * cos (0.0007 * p), 0)\<close>, and its norm is within 0.15 of 1.
  For the particle system the statement is given for both bindings of \<^verbatim>\<open>generate\<close> in
  the class body; under the later one no position is appended at all.
\<close>

theorem positions_near_unit_sphere:
  "(FibonacciSphere_generate now d = Some f \<longrightarrow> (\<forall>p\<in>set (points f). norm3 p = 1)) \<and>
   (LorenzAttractor_generate d = Some f \<longrightarrow> (\<forall>p\<in>set (points f). norm3 p = 1)) \<and>
   (ParticleSystem_generate d = Some f \<longrightarrow> (\<forall>p\<in>set (points f). norm3 p = 1)) \<and>
   (\<forall>p\<in>set (points (ParticleSystem_generate_first rnd d)). norm3 p = 1) \<and>
   (PrimeSpiral_generate d = Some f \<longrightarrow> (\<forall>p\<in>set (points f). \<bar>norm3 p - 1\<bar> \<le> 3/20))"
  using FibonacciSphere_on_sphere [of now d f] LorenzAttractor_on_sphere [of d f]
    ParticleSystem_first_on_sphere [of _ rnd d] PrimeSpiral_near_sphere [of d f]
  by (auto simp: ParticleSystem_generate_empty)

theorem primespiral_off_sphere_counterexample:
  "PrimeSpiral_generate (1/200) \<noteq> None \<and>
   points (the (PrimeSpiral_generate (1/200))) \<noteq> [] \<and>
   1 + 1/10^6 < norm3 (hd (points (the (PrimeSpiral_generate (1/200)))))"
proof -
  obtain ps cols where "PrimeSpiral_generate (1/200) =
     Some \<lparr>points = (sin (2 * 0.001) * 0.1, cos (2 * 0.0007) * 0.1, 1) # ps, colors = cols\<rparr>"
    using PrimeSpiral_first_point by blast
  then show ?thesis using first_prime_point_norm by simp
qed


theorem positions_near_unit_sphere_witness:
  "norm3 (hd (points (the (FibonacciSphere_generate (\<lambda>i k. 0) (1/10000))))) = 1 \<and>
   norm3 (hd (points (the (LorenzAttractor_generate (1/5000))))) = 1 \<and>
   points (the (ParticleSystem_generate (1/5000))) = [] \<and>
   norm3 (hd (points (ParticleSystem_generate_first (\<lambda>i k. 0) (1/5000)))) = 1 \<and>
   \<bar>norm3 (hd (points (the (PrimeSpiral_generate (1/200))))) - 1\<bar> \<le> 3/20"
proof -
  have "\<bar>py_fmul (1/10000) 10000\<bar> \<le> max_double"
    by (intro small_le_max_double) (simp add: product_1_10000)
  from FibonacciSphere_generate_total [OF this, of "\<lambda>i k. 0"]
  obtain f1 where f1: "FibonacciSphere_generate (\<lambda>i k. 0) (1/10000) = Some f1"
      "length (points f1) = 1"
    by (auto simp: product_1_10000)
  then have "hd (points f1) \<in> set (points f1)" by (cases "points f1") auto
  with positions_near_unit_sphere [of "\<lambda>i k. 0" "1/10000" f1] f1
  have a: "norm3 (hd (points f1)) = 1" by blast
  obtain f2 where f2: "LorenzAttractor_generate (1/5000) = Some f2"
    using LorenzAttractor_total [of "1/5000"] by auto
  then have "hd (points f2) \<in> set (points f2)"
    using LorenzAttractor_nonempty by simp
  with positions_near_unit_sphere [of _ "1/5000" f2] f2
  have b: "norm3 (hd (points f2)) = 1" by blast
  have "length (points (ParticleSystem_generate_first (\<lambda>i k. 0) (1/5000))) = 1"
    using ParticleSystem_first_lengths [of "\<lambda>i k. 0" "1/5000"] by (simp add: py_int_def)
  then have "hd (points (ParticleSystem_generate_first (\<lambda>i k. 0) (1/5000)))
      \<in> set (points (ParticleSystem_generate_first (\<lambda>i k. 0) (1/5000)))"
    by (cases "points (ParticleSystem_generate_first (\<lambda>i k. 0) (1/5000))") auto
  with positions_near_unit_sphere [of _ "1/5000" _ "\<lambda>i k. 0"]
  have c: "norm3 (hd (points (ParticleSystem_generate_first (\<lambda>i k. 0) (1/5000)))) = 1"
    by blast
  obtain ps cols where f4: "PrimeSpiral_generate (1/200) =
     Some \<lparr>points = (sin (2 * 0.001) * 0.1, cos (2 * 0.0007) * 0.1, 1) # ps, colors = cols\<rparr>"
    using PrimeSpiral_first_point by blast
  with positions_near_unit_sphere [of _ "1/200"
      "\<lparr>points = (sin (2 * 0.001) * 0.1, cos (2 * 0.0007) * 0.1, 1) # ps, colors = cols\<rparr>"]
  have d: "\<bar>norm3 (sin (2 * 0.001) * 0.1, cos (2 * 0.0007) * 0.1, 1) - 1\<bar> \<le> 3/20"
    by simp
  show ?thesis using a b c d f1 f2 f4
    by (simp add: ParticleSystem_generate_empty)
qed

text \<open>
  C1. The class body of \<^verbatim>\<open>ParticleSystem\<close> binds \<^verbatim>\<open>generate\<close> twice; the second
  binding is the one a call reaches. At density 1 it returns an empty point field, where
  \<open>int (1 * 5000) = 5000\<close> particles are claimed.
\<close>

theorem particle_generate_appends_nothing:
  "ParticleSystem_generate 1 = Some \<lparr>points = [], colors = []\<rparr> \<and> nat (py_int (1 * 5000)) = 5000"
  by (simp add: ParticleSystem_generate_empty py_int_def)

subsection \<open>The gravity step\<close>

lemma softened_distance_nonzero:
  "sqrt (dx * dx + dy * dy + dz * dz) + 1/1000 \<noteq> (0::real)"
proof -
  have "0 \<le> sqrt (dx * dx + dy * dy + dz * dz)" by simp
  then show ?thesis by linarith
qed

lemma pair_force_total:
  assumes "i < length pts" "j < length pts" "length ms = length pts" "length forces = length pts"
  shows "\<exists>forces'. pair_force pts ms i j forces = Some forces' \<and> length forces' = length pts"
  using assms
  by (simp add: pair_force_def py_index_def py_div_def Let_def softened_distance_nonzero
        split: prod.splits)

lemma net_forces_total:
  assumes "length ms = length pts"
  shows "\<exists>forces. net_forces pts ms = Some forces \<and> length forces = length pts"
proof -
  let ?n = "length pts"
  let ?P = "\<lambda>fs :: vec3 list. length fs = ?n"
  have inner: "\<exists>t'. for_loop (pair_force pts ms i) [i + 1..<?n] t = Some t' \<and> ?P t'"
    if "i < ?n" "?P t" for i t
  proof (rule for_loop_total [where P = ?P])
    show "?P t" by (rule that)
  next
    fix j u
    assume "j \<in> set [i + 1..<?n]" "?P u"
    then show "\<exists>t'. pair_force pts ms i j u = Some t' \<and> ?P t'"
      using pair_force_total [of i pts j ms u] that(1) assms by simp
  qed
  have "\<exists>s'. for_loop (\<lambda>i. for_loop (pair_force pts ms i) [i + 1..<?n]) [0..<?n]
                (replicate ?n (0, 0, 0)) = Some s' \<and> ?P s'"
  proof (rule for_loop_total [where P = ?P])
    show "?P (replicate ?n (0, 0, 0))" by simp
  next
    fix i t
    assume "i \<in> set [0..<?n]" "?P t"
    then show "\<exists>t'. for_loop (pair_force pts ms i) [i + 1..<?n] t = Some t' \<and> ?P t'"
      using inner [of i t] by simp
  qed
  then show ?thesis by (simp add: net_forces_def Let_def)
qed

lemma integrate_particle_total:
  assumes "i < length pts" "length vels = length pts" "length forces = length pts"
    "length ms = length pts" "ms ! i \<noteq> 0"
  shows "\<exists>v q. integrate_particle forces ms dt i (pts, vels) = Some (v, q)"
proof -
  obtain vx vy vz where "vels ! i = (vx, vy, vz)" by (cases "vels ! i")
  moreover obtain fx fy fz where "forces ! i = (fx, fy, fz)" by (cases "forces ! i")
  moreover obtain px py pz where "pts ! i = (px, py, pz)" by (cases "pts ! i")
  ultimately show ?thesis using assms
    by (simp add: integrate_particle_def py_index_def py_div_def Let_def)
qed

lemma integrate_particle_local:
  assumes "pts ! i = pts0 ! i" "vels ! i = vels0 ! i"
    "length pts = length pts0" "length vels = length vels0"
  shows "integrate_particle forces ms dt i (pts, vels) = integrate_particle forces ms dt i (pts0, vels0)"
  using assms by (simp add: integrate_particle_def py_index_def)

lemma normalize_point_total: "\<exists>p. normalize_point q = Some p"
  by (cases q) (auto simp: normalize_point_def Let_def py_div_def)

lemma normalize_point_norm:
  assumes "normalize_point q = Some p" and "norm3 q \<noteq> 0"
  shows "norm3 p = 1"
proof -
  obtain x y z where q: "q = (x, y, z)" by (cases q)
  define m where "m = sqrt (x\<^sup>2 + y\<^sup>2 + z\<^sup>2)"
  have "0 \<le> m" by (simp add: m_def)
  moreover have "m \<noteq> 0" using assms(2) by (simp add: q norm3_def m_def)
  ultimately have m: "0 < m" by linarith
  then have pos: "0 < x\<^sup>2 + y\<^sup>2 + z\<^sup>2" and nz: "sqrt (x\<^sup>2 + y\<^sup>2 + z\<^sup>2) \<noteq> 0"
    by (simp_all add: m_def)
  with assms(1) have "p = (x / m, y / m, z / m)"
    by (simp add: q normalize_point_def Let_def py_div_def m_def)
  then show ?thesis using normalized_norm3 [OF m_def m] by simp
qed


lemma move_particle_step:
  assumes "i < length pts0" "length pts = length pts0" "length vels = length pts0"
    "length vels0 = length pts0" "length forces = length pts0" "length ms = length pts0"
    "ms ! i \<noteq> 0" "pts ! i = pts0 ! i" "vels ! i = vels0 ! i"
  shows "\<exists>v q p. integrate_particle forces ms dt i (pts0, vels0) = Some (v, q) \<and>
           normalize_point q = Some p \<and>
           move_particle forces ms dt i (pts, vels) = Some (pts[i := p], vels[i := v])"
proof -
  obtain v q where vq: "integrate_particle forces ms dt i (pts0, vels0) = Some (v, q)"
    using integrate_particle_total [of i pts0 vels0 forces ms dt] assms by auto
  have "integrate_particle forces ms dt i (pts, vels) = Some (v, q)"
    using integrate_particle_local [of pts i pts0 vels vels0 forces ms dt] assms vq by simp
  moreover obtain p where "normalize_point q = Some p"
    using normalize_point_total by blast
  ultimately show ?thesis using vq by (cases p) (auto simp: move_particle_def)
qed

lemma move_loop:
  assumes "length vels0 = length pts0" "length forces = length pts0" "length ms = length pts0"
    "\<forall>m\<in>set ms. m \<noteq> 0"
  shows "k \<le> length pts0 \<Longrightarrow> length pts = length pts0 \<Longrightarrow> length vels = length pts0 \<Longrightarrow>
    (\<forall>i. k \<le> i \<and> i < length pts0 \<longrightarrow> pts ! i = pts0 ! i \<and> vels ! i = vels0 ! i) \<Longrightarrow>
    \<exists>pts' vels'. for_loop (move_particle forces ms dt) [k..<length pts0] (pts, vels) = Some (pts', vels')
      \<and> length pts' = length pts0 \<and> length vels' = length pts0
      \<and> (\<forall>i<k. pts' ! i = pts ! i)
      \<and> (\<forall>i. k \<le> i \<and> i < length pts0 \<longrightarrow>
            (\<exists>v q. integrate_particle forces ms dt i (pts0, vels0) = Some (v, q)
                \<and> normalize_point q = Some (pts' ! i)))"
proof (induction "length pts0 - k" arbitrary: k pts vels)
  case 0
  then have "k = length pts0" by simp
  then show ?case using 0 by auto
next
  case (Suc d)
  then have k: "k < length pts0" by simp
  have mk: "ms ! k \<noteq> 0" using assms(3,4) k by (metis nth_mem)
  obtain v q p where
    vq: "integrate_particle forces ms dt k (pts0, vels0) = Some (v, q)" and
    p: "normalize_point q = Some p" and
    mv: "move_particle forces ms dt k (pts, vels) = Some (pts[k := p], vels[k := v])"
    using move_particle_step [of k pts0 pts vels vels0 forces ms dt] k Suc.prems assms mk
    by auto
  have d: "d = length pts0 - Suc k" using Suc.hyps(2) by simp
  have "\<exists>pts' vels'. for_loop (move_particle forces ms dt) [Suc k..<length pts0]
          (pts[k := p], vels[k := v]) = Some (pts', vels')
      \<and> length pts' = length pts0 \<and> length vels' = length pts0
      \<and> (\<forall>i<Suc k. pts' ! i = pts[k := p] ! i)
      \<and> (\<forall>i. Suc k \<le> i \<and> i < length pts0 \<longrightarrow>
            (\<exists>v q. integrate_particle forces ms dt i (pts0, vels0) = Some (v, q)
                \<and> normalize_point q = Some (pts' ! i)))"
    using Suc.prems k by (intro Suc.hyps(1) [OF d]) simp_all
  then obtain pts' vels' where
    l: "for_loop (move_particle forces ms dt) [Suc k..<length pts0]
          (pts[k := p], vels[k := v]) = Some (pts', vels')" and
    len: "length pts' = length pts0" "length vels' = length pts0" and
    old: "\<forall>i<Suc k. pts' ! i = pts[k := p] ! i" and
    new: "\<forall>i. Suc k \<le> i \<and> i < length pts0 \<longrightarrow>
            (\<exists>v q. integrate_particle forces ms dt i (pts0, vels0) = Some (v, q)
                \<and> normalize_point q = Some (pts' ! i))"
    by blast
  have loop: "for_loop (move_particle forces ms dt) [k..<length pts0] (pts, vels) = Some (pts', vels')"
    using k mv l by (simp add: upt_conv_Cons)
  have "pts' ! k = p" using old k Suc.prems(2) by simp
  then have atk: "\<exists>v q. integrate_particle forces ms dt k (pts0, vels0) = Some (v, q)
                \<and> normalize_point q = Some (pts' ! k)"
    using vq p by blast
  have "\<forall>i<k. pts' ! i = pts ! i" using old by simp
  moreover have "\<forall>i. k \<le> i \<and> i < length pts0 \<longrightarrow>
            (\<exists>v q. integrate_particle forces ms dt i (pts0, vels0) = Some (v, q)
                \<and> normalize_point q = Some (pts' ! i))"
    using new atk by (metis Suc_leI le_neq_implies_less)
  ultimately show ?case using loop len by blast
qed

text \<open>
  C6. For every particle field whose velocities and masses are aligned with its points
  and whose masses are not zero, one call of \<^verbatim>\<open>update_physics\<close> returns without an
  exception, leaves the number of particles and every mass unchanged, and every
  particle whose position after the integration step has a magnitude other than zero
  ends with Euclidean norm 1.
\<close>

theorem update_physics_preserves:
  assumes "length (velocities ps) = length (points ps)"
    and "length (masses ps) = length (points ps)"
    and "\<forall>m\<in>set (masses ps). m \<noteq> 0"
  shows "\<exists>ps' forces. net_forces (points ps) (masses ps) = Some forces \<and>
      update_physics dt ps = Some ps' \<and>
      length (points ps') = length (points ps) \<and> masses ps' = masses ps \<and>
      (\<forall>i<length (points ps). \<exists>v q.
          integrate_particle forces (masses ps) dt i (points ps, velocities ps) = Some (v, q) \<and>
          (norm3 q \<noteq> 0 \<longrightarrow> norm3 (points ps' ! i) = 1))"
proof -
  obtain forces where f: "net_forces (points ps) (masses ps) = Some forces"
      "length forces = length (points ps)"
    using net_forces_total [OF assms(2)] by blast
  have "\<exists>pts' vels'. for_loop (move_particle forces (masses ps) dt) [0..<length (points ps)]
          (points ps, velocities ps) = Some (pts', vels')
      \<and> length pts' = length (points ps) \<and> length vels' = length (points ps)
      \<and> (\<forall>i<0. pts' ! i = points ps ! i)
      \<and> (\<forall>i. 0 \<le> i \<and> i < length (points ps) \<longrightarrow>
            (\<exists>v q. integrate_particle forces (masses ps) dt i (points ps, velocities ps) = Some (v, q)
                \<and> normalize_point q = Some (pts' ! i)))"
    by (rule move_loop [OF assms(1) f(2) assms(2,3)]) (simp_all add: assms(1))
  then obtain pts' vels' where
    l: "for_loop (move_particle forces (masses ps) dt) [0..<length (points ps)]
          (points ps, velocities ps) = Some (pts', vels')" and
    len: "length pts' = length (points ps)" and
    len2: "length vels' = length (points ps)" and
    old: "\<forall>i<0. pts' ! i = points ps ! i" and
    each: "\<forall>i. 0 \<le> i \<and> i < length (points ps) \<longrightarrow>
            (\<exists>v q. integrate_particle forces (masses ps) dt i (points ps, velocities ps) = Some (v, q)
                \<and> normalize_point q = Some (pts' ! i))"
    by (elim exE conjE) (rule that)
  have u: "update_physics dt ps = Some (ps\<lparr>points := pts', velocities := vels'\<rparr>)"
    using f(1) l by (simp add: update_physics_def Let_def)
  have "\<exists>v q. integrate_particle forces (masses ps) dt i (points ps, velocities ps) = Some (v, q) \<and>
          (norm3 q \<noteq> 0 \<longrightarrow> norm3 (pts' ! i) = 1)" if "i < length (points ps)" for i
  proof -
    from each that have "\<exists>v q. integrate_particle forces (masses ps) dt i (points ps, velocities ps) = Some (v, q)
                \<and> normalize_point q = Some (pts' ! i)" by simp
    then obtain v q where
      vq: "integrate_particle forces (masses ps) dt i (points ps, velocities ps) = Some (v, q)" and
      n: "normalize_point q = Some (pts' ! i)" by (elim exE conjE) (rule that)
    have "norm3 q \<noteq> 0 \<longrightarrow> norm3 (pts' ! i) = 1"
      using normalize_point_norm [OF n] by simp
    with vq show ?thesis by (intro exI conjI)
  qed
  then have "\<forall>i<length (points ps). \<exists>v q.
          integrate_particle forces (masses ps) dt i (points ps, velocities ps) = Some (v, q) \<and>
          (norm3 q \<noteq> 0 \<longrightarrow> norm3 (points (ps\<lparr>points := pts', velocities := vels'\<rparr>) ! i) = 1)"
    by simp
  moreover have "length (points (ps\<lparr>points := pts', velocities := vels'\<rparr>)) = length (points ps)"
    using len by simp
  moreover have "masses (ps\<lparr>points := pts', velocities := vels'\<rparr>) = masses ps" by simp
  ultimately show ?thesis using f(1) u by (intro exI conjI)
qed

lemma two_particle_forces:
  "net_forces [(1, 0, 0), (-1, 0, 0)] [1, 2] =
     Some [(0.0001 * 1 * 2 / (2.001 * 2.001) * (-2 / 2.001), 0, 0),
           (- (0.0001 * 1 * 2 / (2.001 * 2.001) * (-2 / 2.001)), 0, 0)]"
  by (simp add: net_forces_def pair_force_def py_index_def py_div_def Let_def upt_rec)


theorem update_physics_preserves_witness:
  "\<exists>ps'. update_physics (1/1000)
       \<lparr>points = [(1, 0, 0), (-1, 0, 0)], colors = [(0.5, 0, 0.5, 0.8), (1, 0, 0.5, 0.8)],
        velocities = [(0, 0, 0), (0, 0, 0)], masses = [1, 2]\<rparr> = Some ps' \<and>
     length (points ps') = 2 \<and> masses ps' = [1, 2] \<and>
     norm3 (points ps' ! 0) = 1 \<and> norm3 (points ps' ! 1) = 1"
proof -
  let ?P = "\<lparr>points = [(1, 0, 0), (-1, 0, 0)], colors = [(0.5, 0, 0.5, 0.8), (1, 0, 0.5, 0.8)],
        velocities = [(0, 0, 0), (0, 0, 0)], masses = [1, 2]\<rparr> :: particle_system"
  let ?F = "[(0.0001 * 1 * 2 / (2.001 * 2.001) * (-2 / 2.001), 0, 0),
           (- (0.0001 * 1 * 2 / (2.001 * 2.001) * (-2 / 2.001)), 0, 0)] :: vec3 list"
  have "\<exists>ps' forces. net_forces (points ?P) (masses ?P) = Some forces \<and>
      update_physics (1/1000) ?P = Some ps' \<and>
      length (points ps') = length (points ?P) \<and> masses ps' = masses ?P \<and>
      (\<forall>i<length (points ?P). \<exists>v q.
          integrate_particle forces (masses ?P) (1/1000) i (points ?P, velocities ?P) = Some (v, q) \<and>
          (norm3 q \<noteq> 0 \<longrightarrow> norm3 (points ps' ! i) = 1))"
    by (rule update_physics_preserves) simp_all
  then obtain ps' forces where
    f: "net_forces (points ?P) (masses ?P) = Some forces" and
    u: "update_physics (1/1000) ?P = Some ps'" and
    len: "length (points ps') = length (points ?P)" and
    ms: "masses ps' = masses ?P" and
    each: "\<forall>i<length (points ?P). \<exists>v q.
          integrate_particle forces (masses ?P) (1/1000) i (points ?P, velocities ?P) = Some (v, q) \<and>
          (norm3 q \<noteq> 0 \<longrightarrow> norm3 (points ps' ! i) = 1)"
    by (elim exE conjE) (rule that)
  have forces: "forces = ?F" using f two_particle_forces by simp
  have "\<exists>v q. integrate_particle ?F [1, 2] (1/1000) 0 ([(1, 0, 0), (-1, 0, 0)], [(0, 0, 0), (0, 0, 0)]) = Some (v, q) \<and>
          (norm3 q \<noteq> 0 \<longrightarrow> norm3 (points ps' ! 0) = 1)"
    using each forces by simp
  then have a: "norm3 (points ps' ! 0) = 1"
    by (simp add: integrate_particle_def py_index_def py_div_def norm3_def)
  have "\<exists>v q. integrate_particle ?F [1, 2] (1/1000) (Suc 0) ([(1, 0, 0), (-1, 0, 0)], [(0, 0, 0), (0, 0, 0)]) = Some (v, q) \<and>
          (norm3 q \<noteq> 0 \<longrightarrow> norm3 (points ps' ! Suc 0) = 1)"
    using each forces by simp
  then have b: "norm3 (points ps' ! 1) = 1"
    by (simp add: integrate_particle_def py_index_def py_div_def norm3_def)
  show ?thesis using u len ms a b by simp
qed

subsection \<open>Render path selection\<close>

lemma draw_sizes_plain:
  "list_all plain_call xs \<Longrightarrow> draw_sizes cur (xs @ ys) = draw_sizes cur ys"
proof (induction xs)
  case Nil
  show ?case by simp
next
  case (Cons c xs)
  then show ?case by (cases c) simp_all
qed

lemma immediate_vertex_plain: "list_all plain_call (immediate_vertex t i pc)"
  by (simp add: immediate_vertex_def Let_def split: prod.splits)

lemma immediate_vertices_plain:
  "list_all plain_call (concat (map (\<lambda>(i, pc). immediate_vertex (f i) i pc) xs))"
  by (induction xs) (auto simp: immediate_vertex_plain)

lemma draw_sizes_immediate_pass:
  "draw_sizes cur (immediate_pass now pts cols (k, s) @ rest) = s # draw_sizes s rest"
  using draw_sizes_plain [OF immediate_vertices_plain, of s "now k" "enumerate 0 (zip pts cols)" "GlEnd # rest"]
  by (simp add: immediate_pass_def)

lemma draw_sizes_draw_points:
  "draw_sizes cur (draw_points now pts cols @ rest) = [1, 2, 3] @ draw_sizes 3 rest"
  by (simp add: draw_points_def Let_def draw_sizes_immediate_pass enumerate_eq_zip upt_rec)

lemma draw_sizes_overlay: "draw_sizes cur (render_overlay_effects rot @ rest) = draw_sizes cur rest"
  by (simp add: render_overlay_effects_def upt_rec)

lemma immediate_vertex_no_arrays: "\<not> list_ex is_draw_arrays (immediate_vertex t i pc)"
  by (simp add: immediate_vertex_def Let_def split: prod.splits)

lemma immediate_vertices_no_arrays:
  "\<not> list_ex is_draw_arrays (concat (map (\<lambda>(i, pc). immediate_vertex (f i) i pc) xs))"
  by (induction xs) (auto simp: immediate_vertex_no_arrays)

lemma immediate_pass_no_arrays: "\<not> list_ex is_draw_arrays (immediate_pass now pts cols ks)"
  by (cases ks) (simp add: immediate_pass_def immediate_vertices_no_arrays)

lemma immediate_pass_begins: "list_ex (\<lambda>c. c = GlBegin) (immediate_pass now pts cols ks)"
  by (cases ks) (simp add: immediate_pass_def)

lemma batched_draw_points:
  "list_ex is_draw_arrays (draw_points now pts cols) \<longleftrightarrow> 50000 < length pts"
proof (cases "50000 < length pts")
  case True
  then show ?thesis by (simp add: draw_points_def Let_def)
next
  case False
  then show ?thesis
    by (simp add: draw_points_def Let_def enumerate_eq_zip upt_rec immediate_pass_no_arrays)
qed

lemma immediate_draw_points:
  "list_ex (\<lambda>c. c = GlBegin) (draw_points now pts cols) \<longleftrightarrow> length pts \<le> 50000"
proof (cases "50000 < length pts")
  case True
  then show ?thesis by (simp add: draw_points_def Let_def)
next
  case False
  then show ?thesis
    by (simp add: draw_points_def Let_def enumerate_eq_zip upt_rec immediate_pass_begins)
qed

lemma overlay_calls:
  "\<not> list_ex is_draw_arrays (render_overlay_effects rot)"
  "\<not> list_ex (\<lambda>c. c = GlBegin) (render_overlay_effects rot)"
  by (simp_all add: render_overlay_effects_def upt_rec)

lemma move_particle_length:
  "move_particle forces ms dt i st = Some st' \<Longrightarrow> length (fst st') = length (fst st)"
  by (auto simp: move_particle_def split: bind_splits)

lemma update_physics_length:
  assumes "update_physics dt ps = Some ps'"
  shows "length (points ps') = length (points ps)"
proof (cases "net_forces (points ps) (masses ps)")
  case None
  have "update_physics dt ps = None"
    unfolding update_physics_def Let_def None by (simp only: bind.bind_lzero)
  with assms show ?thesis by simp
next
  case (Some forces)
  let ?loop = "for_loop (move_particle forces (masses ps) dt) [0..<length (points ps)]
          (points ps, velocities ps)"
  show ?thesis
  proof (cases ?loop)
    case None
    have "update_physics dt ps = None"
      unfolding update_physics_def Let_def
      by (simp only: Some None bind.bind_lunit bind.bind_lzero)
    with assms show ?thesis by simp
  next
    case st: (Some st)
    have "length (fst st) = length (points ps)"
    proof (rule for_loop_invariant [OF st, where P = "\<lambda>s. length (fst s) = length (points ps)"])
      show "length (fst (points ps, velocities ps)) = length (points ps)" by simp
    next
      fix i t t'
      assume "length (fst t) = length (points ps)"
        and "move_particle forces (masses ps) dt i t = Some t'"
      then show "length (fst t') = length (points ps)"
        using move_particle_length [of forces "masses ps" dt i t t'] by simp
    qed
    moreover have "update_physics dt ps = Some (ps\<lparr>points := fst st, velocities := snd st\<rparr>)"
      unfolding update_physics_def Let_def
      by (simp only: Some st bind.bind_lunit split_beta)
    then have "ps' = ps\<lparr>points := fst st, velocities := snd st\<rparr>"
      using assms by simp
    ultimately show ?thesis by simp
  qed
qed

lemma submitted_vertices:
  "\<exists>c'. submitted c (concat (map (\<lambda>(i, pc). immediate_vertex (f i) i pc) xs) @ rest)
     = map (\<lambda>(i, (p, (r, g, b, a))).
              (p, (r * (0.8 + 0.2 * sin (real i * 0.01 + f i * 0.1)),
                   g * (0.8 + 0.2 * sin (real i * 0.01 + f i * 0.1)),
                   b * (0.8 + 0.2 * sin (real i * 0.01 + f i * 0.1)), a))) xs
       @ submitted c' rest"
proof (induction xs arbitrary: c)
  case Nil
  show ?case by (rule exI [of _ c]) simp
next
  case (Cons x xs)
  obtain i px py pz r g b a where x: "x = (i, (px, py, pz), (r, g, b, a))"
    by (cases x) auto
  from Cons [of "(r * (0.8 + 0.2 * sin (real i * 0.01 + f i * 0.1)),
                   g * (0.8 + 0.2 * sin (real i * 0.01 + f i * 0.1)),
                   b * (0.8 + 0.2 * sin (real i * 0.01 + f i * 0.1)), a)"]
  show ?case by (simp add: x immediate_vertex_def Let_def)
qed

lemma submitted_immediate_pass:
  "\<exists>c'. submitted c (immediate_pass now pts cols (k, s) @ rest)
     = map (\<lambda>(i, (p, (r, g, b, a))).
              (p, (r * (0.8 + 0.2 * sin (real i * 0.01 + now k i * 0.1)),
                   g * (0.8 + 0.2 * sin (real i * 0.01 + now k i * 0.1)),
                   b * (0.8 + 0.2 * sin (real i * 0.01 + now k i * 0.1)), a)))
         (enumerate 0 (zip pts cols))
       @ submitted c' rest"
  using submitted_vertices [of c "now k" "enumerate 0 (zip pts cols)" "GlEnd # rest"]
  by (simp add: immediate_pass_def)

lemma submitted_overlay: "submitted c (render_overlay_effects rot @ [DisplayFlip]) = []"
  by (simp add: render_overlay_effects_def upt_rec)

lemma submitted_draw_points_immediate:
  assumes "length pts \<le> 50000"
  shows "submitted c (draw_points now pts cols @ render_overlay_effects rot @ [DisplayFlip])
     = concat (map (\<lambda>k. map (\<lambda>(i, (p, (r, g, b, a))).
              (p, (r * (0.8 + 0.2 * sin (real i * 0.01 + now k i * 0.1)),
                   g * (0.8 + 0.2 * sin (real i * 0.01 + now k i * 0.1)),
                   b * (0.8 + 0.2 * sin (real i * 0.01 + now k i * 0.1)), a)))
         (enumerate 0 (zip pts cols))) [0, 1, 2])"
proof -
  let ?rest = "render_overlay_effects rot @ [DisplayFlip]"
  let ?m = "\<lambda>k. map (\<lambda>(i, (p, (r, g, b, a))).
              (p, (r * (0.8 + 0.2 * sin (real i * 0.01 + now k i * 0.1)),
                   g * (0.8 + 0.2 * sin (real i * 0.01 + now k i * 0.1)),
                   b * (0.8 + 0.2 * sin (real i * 0.01 + now k i * 0.1)), a)))
         (enumerate 0 (zip pts cols))"
  have d: "draw_points now pts cols @ ?rest
      = immediate_pass now pts cols (0, 1) @ immediate_pass now pts cols (1, 2)
        @ immediate_pass now pts cols (2, 3) @ ?rest"
    using assms by (simp add: draw_points_def Let_def enumerate_eq_zip upt_rec numeral_2_eq_2)
  obtain c1 where 1: "submitted c (immediate_pass now pts cols (0, 1)
        @ immediate_pass now pts cols (1, 2) @ immediate_pass now pts cols (2, 3) @ ?rest)
      = ?m 0 @ submitted c1 (immediate_pass now pts cols (1, 2)
        @ immediate_pass now pts cols (2, 3) @ ?rest)"
    using submitted_immediate_pass by blast
  obtain c2 where 2: "submitted c1 (immediate_pass now pts cols (1, 2)
        @ immediate_pass now pts cols (2, 3) @ ?rest)
      = ?m 1 @ submitted c2 (immediate_pass now pts cols (2, 3) @ ?rest)"
    using submitted_immediate_pass by blast
  obtain c3 where 3: "submitted c2 (immediate_pass now pts cols (2, 3) @ ?rest)
      = ?m 2 @ submitted c3 ?rest"
    using submitted_immediate_pass by blast
  show ?thesis
    by (simp only: d 1 2 3 submitted_overlay) simp
qed

lemma submitted_draw_points_batched:
  assumes "50000 < length pts"
  shows "submitted c (draw_points now pts cols @ render_overlay_effects rot @ [DisplayFlip]) = []"
  using assms by (simp add: draw_points_def Let_def render_overlay_effects_def upt_rec)

lemma array_call_vertices:
  "filter array_call (concat (map (\<lambda>(i, pc). immediate_vertex (f i) i pc) xs)) = []"
  by (induction xs) (auto simp: immediate_vertex_def Let_def)

lemma array_call_immediate_pass: "filter array_call (immediate_pass now pts cols ks) = []"
  by (cases ks) (simp add: immediate_pass_def array_call_vertices)

lemma array_call_overlay: "filter array_call (render_overlay_effects rot) = []"
  by (simp add: render_overlay_effects_def upt_rec)

lemma array_call_draw_points:
  "filter array_call (draw_points now pts cols) =
     (if 50000 < length pts
      then [GlVertexPointer pts, GlColorPointer cols, GlDrawArrays 0 (length pts),
            GlDrawArrays 0 (length pts), GlDrawArrays 0 (length pts)]
      else [])"
  by (simp add: draw_points_def Let_def enumerate_eq_zip upt_rec array_call_immediate_pass)

lemma render_pattern_trace:
  assumes "render_pattern now rotation pat = Some (tr, pat')"
  shows "length (points (pstate pat')) = length (points (pstate pat)) \<and>
         (pkind pat \<noteq> ParticleSystem \<longrightarrow> pat' = pat) \<and>
         tr = [GlClear, GlLoadIdentity, GlTranslatef 0.0 0.0 (-3.0),
                GlRotatef rotation 1 1 0, GlRotatef (rotation * 0.7) 0 1 1,
                GlRotatef (rotation * 0.3) 1 0 1]
              @ draw_points now (points (pstate pat')) (colors (pstate pat'))
              @ render_overlay_effects rotation @ [DisplayFlip]"
proof -
  let ?u = "if pkind pat = ParticleSystem then update_physics 0.001 (pstate pat)
            else Some (pstate pat)"
  show ?thesis
  proof (cases ?u)
    case None
    then have "render_pattern now rotation pat = None"
      unfolding render_pattern_def Let_def by (simp only: bind.bind_lzero)
    with assms show ?thesis by simp
  next
    case (Some ps)
    have len: "length (points ps) = length (points (pstate pat))"
    proof (cases "pkind pat = ParticleSystem")
      case True
      with Some have "update_physics 0.001 (pstate pat) = Some ps" by simp
      then show ?thesis by (rule update_physics_length)
    next
      case False
      with Some show ?thesis by simp
    qed
    have same: "pkind pat \<noteq> ParticleSystem \<longrightarrow> pat\<lparr>pstate := ps\<rparr> = pat"
    proof
      assume "pkind pat \<noteq> ParticleSystem"
      with Some have "ps = pstate pat" by simp
      then show "pat\<lparr>pstate := ps\<rparr> = pat" by simp
    qed
    have "render_pattern now rotation pat =
        Some ([GlClear, GlLoadIdentity, GlTranslatef 0.0 0.0 (-3.0),
                  GlRotatef rotation 1 1 0, GlRotatef (rotation * 0.7) 0 1 1,
                  GlRotatef (rotation * 0.3) 1 0 1] @ draw_points now (points ps) (colors ps)
             @ render_overlay_effects rotation @ [DisplayFlip], pat\<lparr>pstate := ps\<rparr>)"
      unfolding render_pattern_def Let_def Some by (simp only: bind.bind_lunit)
    with assms have tr: "tr = [GlClear, GlLoadIdentity, GlTranslatef 0.0 0.0 (-3.0),
                  GlRotatef rotation 1 1 0, GlRotatef (rotation * 0.7) 0 1 1,
                  GlRotatef (rotation * 0.3) 1 0 1] @ draw_points now (points ps) (colors ps)
             @ render_overlay_effects rotation @ [DisplayFlip]"
      and p: "pat' = pat\<lparr>pstate := ps\<rparr>"
      by (simp_all only: option.inject prod.inject)
    from p have ps: "ps = pstate pat'" by simp
    from same p have same': "pkind pat \<noteq> ParticleSystem \<longrightarrow> pat' = pat" by simp
    from len tr have "length (points (pstate pat')) = length (points (pstate pat))"
      and "tr = [GlClear, GlLoadIdentity, GlTranslatef 0.0 0.0 (-3.0),
                GlRotatef rotation 1 1 0, GlRotatef (rotation * 0.7) 0 1 1,
                GlRotatef (rotation * 0.3) 1 0 1]
              @ draw_points now (points (pstate pat')) (colors (pstate pat'))
              @ render_overlay_effects rotation @ [DisplayFlip]"
      by (simp_all only: ps)
    with same' show ?thesis by (intro conjI)
  qed
qed


text \<open>
  C5. One call of \<^verbatim>\<open>render_pattern\<close> on a pattern with \<open>N\<close> points keeps the number
  of points (and, unless the pattern is the particle system, the pattern). It draws
  with \<^verbatim>\<open>glDrawArrays\<close> (the vertex-array path) if and only if \<open>N > 50000\<close>, and with
  \<^verbatim>\<open>glBegin\<close> \<dots> \<^verbatim>\<open>glEnd\<close> (the immediate path) if and only if \<open>N \<le> 50000\<close>. On
  either path there are exactly three draw calls, at the point sizes 1.0, 2.0, 3.0 in
  this order, whatever point size was in force before the call. On the vertex-array
  path the point list and the color list are handed over whole, each \<^verbatim>\<open>glDrawArrays\<close>
  draws all \<open>N\<close> points, and no vertex is submitted singly. On the immediate path no
  array is handed over or drawn, and in each of the three passes every point paired
  with a color is submitted singly, in order, with the first three components of its
  color multiplied by \<open>0.8 + 0.2 * sin (0.01 * i + 0.1 * t)\<close>, where \<open>i\<close> is its index and
  \<open>t\<close> the clock at that vertex. With 50000 points the path is the immediate one,
  with 50001 the batched one.
\<close>

theorem render_path_selection:
  "render_pattern now rotation pat = Some (tr, pat') \<longrightarrow>
     length (points (pstate pat')) = length (points (pstate pat)) \<and>
     (pkind pat \<noteq> ParticleSystem \<longrightarrow> pat' = pat) \<and>
     (batched tr \<longleftrightarrow> 50000 < length (points (pstate pat))) \<and>
     (immediate tr \<longleftrightarrow> length (points (pstate pat)) \<le> 50000) \<and>
     draw_sizes cur tr = [1, 2, 3] \<and>
     (50000 < length (points (pstate pat)) \<longrightarrow>
        filter array_call tr =
          [GlVertexPointer (points (pstate pat')), GlColorPointer (colors (pstate pat')),
           GlDrawArrays 0 (length (points (pstate pat))),
           GlDrawArrays 0 (length (points (pstate pat))),
           GlDrawArrays 0 (length (points (pstate pat)))] \<and>
        submitted c tr = []) \<and>
     (length (points (pstate pat)) \<le> 50000 \<longrightarrow>
        filter array_call tr = [] \<and>
        submitted c tr =
          concat (map (\<lambda>k. map (\<lambda>(i, (p, (r, g, b, a))).
              (p, (r * (0.8 + 0.2 * sin (real i * 0.01 + now k i * 0.1)),
                   g * (0.8 + 0.2 * sin (real i * 0.01 + now k i * 0.1)),
                   b * (0.8 + 0.2 * sin (real i * 0.01 + now k i * 0.1)), a)))
            (enumerate 0 (zip (points (pstate pat')) (colors (pstate pat'))))) [0, 1, 2]))"
proof
  assume r: "render_pattern now rotation pat = Some (tr, pat')"
  let ?prelude = "[GlClear, GlLoadIdentity, GlTranslatef 0.0 0.0 (-3.0),
                  GlRotatef rotation 1 1 0, GlRotatef (rotation * 0.7) 0 1 1,
                  GlRotatef (rotation * 0.3) 1 0 1]"
  let ?pts = "points (pstate pat')" and ?cols = "colors (pstate pat')"
  let ?N = "length (points (pstate pat))"
  from render_pattern_trace [OF r] have
    len: "length ?pts = ?N" and
    same: "pkind pat \<noteq> ParticleSystem \<longrightarrow> pat' = pat" and
    tr: "tr = ?prelude @ draw_points now ?pts ?cols
               @ render_overlay_effects rotation @ [DisplayFlip]"
    by simp_all
  have s: "list_all plain_call ?prelude" "\<not> list_ex is_draw_arrays ?prelude"
       "\<not> list_ex (\<lambda>c. c = GlBegin) ?prelude"
    by simp_all
  have ov: "\<not> list_ex is_draw_arrays (render_overlay_effects rotation)"
       "\<not> list_ex (\<lambda>c. c = GlBegin) (render_overlay_effects rotation)"
    by (rule overlay_calls)+
  have b: "batched tr \<longleftrightarrow> 50000 < ?N"
    using s ov batched_draw_points [of now ?pts ?cols] len by (simp add: batched_def tr)
  have i: "immediate tr \<longleftrightarrow> ?N \<le> 50000"
    using s ov immediate_draw_points [of now ?pts ?cols] len by (simp add: immediate_def tr)
  have d: "draw_sizes cur tr = [1, 2, 3]"
    by (simp add: tr draw_sizes_plain [OF s(1)] draw_sizes_draw_points draw_sizes_overlay)
  have sub: "submitted c tr = submitted c (draw_points now ?pts ?cols
               @ render_overlay_effects rotation @ [DisplayFlip])"
    by (simp add: tr)
  have arr: "filter array_call tr = filter array_call (draw_points now ?pts ?cols)"
    by (simp add: tr array_call_overlay)
  have big: "filter array_call tr =
          [GlVertexPointer ?pts, GlColorPointer ?cols,
           GlDrawArrays 0 ?N, GlDrawArrays 0 ?N, GlDrawArrays 0 ?N] \<and>
        submitted c tr = []" if "50000 < ?N"
    using that len by (simp add: arr sub array_call_draw_points submitted_draw_points_batched)
  have small: "filter array_call tr = [] \<and>
        submitted c tr =
          concat (map (\<lambda>k. map (\<lambda>(i, (p, (r, g, b, a))).
              (p, (r * (0.8 + 0.2 * sin (real i * 0.01 + now k i * 0.1)),
                   g * (0.8 + 0.2 * sin (real i * 0.01 + now k i * 0.1)),
                   b * (0.8 + 0.2 * sin (real i * 0.01 + now k i * 0.1)), a)))
            (enumerate 0 (zip ?pts ?cols))) [0, 1, 2])" if "?N \<le> 50000"
  proof -
    from that len have l: "length ?pts \<le> 50000" by simp
    then have "filter array_call tr = []" by (simp add: arr array_call_draw_points)
    then show ?thesis
      by (simp only: sub submitted_draw_points_immediate [OF l])
  qed
  show "length ?pts = ?N \<and>
     (pkind pat \<noteq> ParticleSystem \<longrightarrow> pat' = pat) \<and>
     (batched tr \<longleftrightarrow> 50000 < ?N) \<and>
     (immediate tr \<longleftrightarrow> ?N \<le> 50000) \<and>
     draw_sizes cur tr = [1, 2, 3] \<and>
     (50000 < ?N \<longrightarrow>
        filter array_call tr =
          [GlVertexPointer ?pts, GlColorPointer ?cols,
           GlDrawArrays 0 ?N, GlDrawArrays 0 ?N, GlDrawArrays 0 ?N] \<and>
        submitted c tr = []) \<and>
     (?N \<le> 50000 \<longrightarrow>
        filter array_call tr = [] \<and>
        submitted c tr =
          concat (map (\<lambda>k. map (\<lambda>(i, (p, (r, g, b, a))).
              (p, (r * (0.8 + 0.2 * sin (real i * 0.01 + now k i * 0.1)),
                   g * (0.8 + 0.2 * sin (real i * 0.01 + now k i * 0.1)),
                   b * (0.8 + 0.2 * sin (real i * 0.01 + now k i * 0.1)), a)))
            (enumerate 0 (zip ?pts ?cols))) [0, 1, 2]))"
    using len same b i d big small by blast
qed

theorem render_path_selection_witness:
  "immediate (fst (the (render_pattern (\<lambda>k i. 0) 0
      \<lparr>pkind = FibonacciSphere, pstate = \<lparr>points = replicate 50000 (0, 0, 1),
         colors = replicate 50000 (1, 1, 1, 0.8), velocities = [], masses = []\<rparr>\<rparr>))) \<and>
   \<not> batched (fst (the (render_pattern (\<lambda>k i. 0) 0
      \<lparr>pkind = FibonacciSphere, pstate = \<lparr>points = replicate 50000 (0, 0, 1),
         colors = replicate 50000 (1, 1, 1, 0.8), velocities = [], masses = []\<rparr>\<rparr>))) \<and>
   batched (fst (the (render_pattern (\<lambda>k i. 0) 0
      \<lparr>pkind = FibonacciSphere, pstate = \<lparr>points = replicate 50001 (0, 0, 1),
         colors = replicate 50001 (1, 1, 1, 0.8), velocities = [], masses = []\<rparr>\<rparr>))) \<and>
   \<not> immediate (fst (the (render_pattern (\<lambda>k i. 0) 0
      \<lparr>pkind = FibonacciSphere, pstate = \<lparr>points = replicate 50001 (0, 0, 1),
         colors = replicate 50001 (1, 1, 1, 0.8), velocities = [], masses = []\<rparr>\<rparr>))) \<and>
   draw_sizes 7 (fst (the (render_pattern (\<lambda>k i. 0) 0
      \<lparr>pkind = FibonacciSphere, pstate = \<lparr>points = replicate 50001 (0, 0, 1),
         colors = replicate 50001 (1, 1, 1, 0.8), velocities = [], masses = []\<rparr>\<rparr>))) = [1, 2, 3] \<and>
   filter array_call (fst (the (render_pattern (\<lambda>k i. 0) 0
      \<lparr>pkind = FibonacciSphere, pstate = \<lparr>points = replicate 50001 (0, 0, 1),
         colors = replicate 50001 (1, 1, 1, 0.8), velocities = [], masses = []\<rparr>\<rparr>)))
     = [GlVertexPointer (replicate 50001 (0, 0, 1)), GlColorPointer (replicate 50001 (1, 1, 1, 0.8)),
        GlDrawArrays 0 50001, GlDrawArrays 0 50001, GlDrawArrays 0 50001] \<and>
   submitted (0, 0, 0, 0) (fst (the (render_pattern (\<lambda>k i. 0) 0
      \<lparr>pkind = FibonacciSphere, pstate = \<lparr>points = replicate 50001 (0, 0, 1),
         colors = replicate 50001 (1, 1, 1, 0.8), velocities = [], masses = []\<rparr>\<rparr>))) = [] \<and>
   draw_sizes 7 (fst (the (render_pattern (\<lambda>k i. 0) 0
      \<lparr>pkind = PrimeSpiral, pstate = \<lparr>points = [(0, 0, 1), (1, 0, 0)],
         colors = [(1, 1, 1, 1/2), (1/2, 1/4, 0, 1)], velocities = [], masses = []\<rparr>\<rparr>))) = [1, 2, 3] \<and>
   submitted (0, 0, 0, 0) (fst (the (render_pattern (\<lambda>k i. 0) 0
      \<lparr>pkind = PrimeSpiral, pstate = \<lparr>points = [(0, 0, 1), (1, 0, 0)],
         colors = [(1, 1, 1, 1/2), (1/2, 1/4, 0, 1)], velocities = [], masses = []\<rparr>\<rparr>)))
     = [((0, 0, 1), (4/5, 4/5, 4/5, 1/2)),
        ((1, 0, 0), ((4/5 + sin (1/100) / 5) / 2, (4/5 + sin (1/100) / 5) / 4, 0, 1)),
        ((0, 0, 1), (4/5, 4/5, 4/5, 1/2)),
        ((1, 0, 0), ((4/5 + sin (1/100) / 5) / 2, (4/5 + sin (1/100) / 5) / 4, 0, 1)),
        ((0, 0, 1), (4/5, 4/5, 4/5, 1/2)),
        ((1, 0, 0), ((4/5 + sin (1/100) / 5) / 2, (4/5 + sin (1/100) / 5) / 4, 0, 1))]"
proof -
  let ?P = "\<lambda>n. \<lparr>pkind = FibonacciSphere, pstate = \<lparr>points = replicate n (0, 0, 1),
         colors = replicate n (1, 1, 1, 0.8), velocities = [], masses = []\<rparr>\<rparr>"
  let ?Q = "\<lparr>pkind = PrimeSpiral, pstate = \<lparr>points = [(0, 0, 1), (1, 0, 0)],
         colors = [(1, 1, 1, 1/2), (1/2, 1/4, 0, 1)], velocities = [], masses = []\<rparr>\<rparr>"
  have r: "render_pattern (\<lambda>k i. 0) 0 (?P n) =
      Some (fst (the (render_pattern (\<lambda>k i. 0) 0 (?P n))),
            snd (the (render_pattern (\<lambda>k i. 0) 0 (?P n))))" for n
    by (simp add: render_pattern_def)
  have q: "render_pattern (\<lambda>k i. 0) 0 ?Q =
      Some (fst (the (render_pattern (\<lambda>k i. 0) 0 ?Q)),
            snd (the (render_pattern (\<lambda>k i. 0) 0 ?Q)))"
    by (simp add: render_pattern_def)
  have a: "immediate (fst (the (render_pattern (\<lambda>k i. 0) 0 (?P 50000)))) \<and>
      \<not> batched (fst (the (render_pattern (\<lambda>k i. 0) 0 (?P 50000))))"
    using render_path_selection [where cur = 7 and c = "(0, 0, 0, 0)", THEN mp, OF r [of 50000]]
    by simp
  have b: "batched (fst (the (render_pattern (\<lambda>k i. 0) 0 (?P 50001)))) \<and>
      \<not> immediate (fst (the (render_pattern (\<lambda>k i. 0) 0 (?P 50001)))) \<and>
      draw_sizes 7 (fst (the (render_pattern (\<lambda>k i. 0) 0 (?P 50001)))) = [1, 2, 3] \<and>
      filter array_call (fst (the (render_pattern (\<lambda>k i. 0) 0 (?P 50001))))
        = [GlVertexPointer (replicate 50001 (0, 0, 1)),
           GlColorPointer (replicate 50001 (1, 1, 1, 0.8)),
           GlDrawArrays 0 50001, GlDrawArrays 0 50001, GlDrawArrays 0 50001] \<and>
      submitted (0, 0, 0, 0) (fst (the (render_pattern (\<lambda>k i. 0) 0 (?P 50001)))) = []"
    using render_path_selection [where cur = 7 and c = "(0, 0, 0, 0)", THEN mp, OF r [of 50001]]
    by simp
  have c: "draw_sizes 7 (fst (the (render_pattern (\<lambda>k i. 0) 0 ?Q))) = [1, 2, 3] \<and>
      submitted (0, 0, 0, 0) (fst (the (render_pattern (\<lambda>k i. 0) 0 ?Q)))
     = [((0, 0, 1), (4/5, 4/5, 4/5, 1/2)),
        ((1, 0, 0), ((4/5 + sin (1/100) / 5) / 2, (4/5 + sin (1/100) / 5) / 4, 0, 1)),
        ((0, 0, 1), (4/5, 4/5, 4/5, 1/2)),
        ((1, 0, 0), ((4/5 + sin (1/100) / 5) / 2, (4/5 + sin (1/100) / 5) / 4, 0, 1)),
        ((0, 0, 1), (4/5, 4/5, 4/5, 1/2)),
        ((1, 0, 0), ((4/5 + sin (1/100) / 5) / 2, (4/5 + sin (1/100) / 5) / 4, 0, 1))]"
    using render_path_selection [where cur = 7 and c = "(0, 0, 0, 0)", THEN mp, OF q]
    by simp
  show ?thesis using a b c by (simp only: simp_thms)
qed

subsection \<open>The benchmark driver\<close>

lemma benchmark_densities_append:
  "benchmark_densities env pidx k ds1 (pat, st) = (Returned True, pat1, st1) \<Longrightarrow>
   benchmark_densities env pidx k (ds1 @ ds') (pat, st) =
     benchmark_densities env pidx (k + length ds1) ds' (pat1, st1)"
proof (induction ds1 arbitrary: k pat st)
  case Nil
  then show ?case by simp
next
  case (Cons d ds1)
  show ?case
  proof (cases "generate (gen_clock env) pat d")
    case None
    with Cons.prems show ?thesis by simp
  next
    case (Some p1)
    show ?thesis
    proof (cases "get_point_count p1 = 0")
      case True
      with Some Cons.prems have "benchmark_densities env pidx (k + 1) ds1 (p1, st) = (Returned True, pat1, st1)"
        by simp
      from Cons.IH [OF this] Some True show ?thesis by simp
    next
      case False
      obtain ex p2 n t r where
        l: "render_loop_run (frames (loop_of env pidx k)) (p1, 0, 0, b_rotation st) = (ex, p2, n, t, r)"
        by (metis prod_cases5)
      show ?thesis
      proof (cases ex)
        case TimeUp
        let ?st = "\<lparr>b_result = add_result (pattern_name (pkind p2)) d (get_point_count p1)
                      (if elapsed (loop_of env pidx k) > 0 then real n / elapsed (loop_of env pidx k) else 0)
                      (if n > 0 then t / real n else 0) (b_result st), b_rotation = r\<rparr>"
        from Cons.prems Some False l TimeUp
        have "benchmark_densities env pidx (k + 1) ds1 (p2, ?st) = (Returned True, pat1, st1)"
          by (simp add: Let_def)
        from Cons.IH [OF this] Some False l TimeUp show ?thesis by (simp add: Let_def)
      next
        case QuitSeen
        with Cons.prems Some False l show ?thesis by simp
      next
        case RenderRaised
        with Cons.prems Some False l show ?thesis by simp
      qed
    qed
  qed
qed

lemma run_patterns_append:
  "run_patterns env pidx ps1 ds st = (Returned True, st1) \<Longrightarrow>
   run_patterns env pidx (ps1 @ ps') ds st = run_patterns env (pidx + length ps1) ps' ds st1"
proof (induction ps1 arbitrary: pidx st)
  case Nil
  then show ?case by simp
next
  case (Cons p ps1)
  obtain oc p' st' where b: "benchmark_pattern env pidx p ds st = (oc, p', st')"
    by (metis prod_cases3)
  show ?case
  proof (cases oc)
    case Raised
    with Cons.prems b show ?thesis by simp
  next
    case (Returned c)
    show ?thesis
    proof (cases c)
      case True
      with Cons.prems b Returned have "run_patterns env (pidx + 1) ps1 ds st' = (Returned True, st1)"
        by simp
      from Cons.IH [OF this] b Returned True show ?thesis by simp
    next
      case False
      with Cons.prems b Returned show ?thesis by simp
    qed
  qed
qed

text \<open>
  C7. In the sweep of a pattern, a density for which \<^verbatim>\<open>generate\<close> leaves 0 points adds
  no record and raises nothing: the driver goes on with the next density, with the
  result store and the rotation as they were.
\<close>

theorem zero_points_skipped:
  "generate (gen_clock env) pat d = Some pat1 \<and> get_point_count pat1 = 0 \<longrightarrow>
     benchmark_densities env pidx k (d # ds) (pat, st) =
       benchmark_densities env pidx (k + 1) ds (pat1, st)"
  by simp

text \<open>
  C9. When a quit event arrives during the render loop of some pattern at some density,
  after the patterns and densities before it were benchmarked without a quit, the run
  benchmarks nothing further (the patterns and densities that follow do not affect the
  outcome), writes one result file holding exactly the records collected before the
  quit, and the process exits with status 0.
\<close>

theorem quit_aborts_sweep:
  assumes "init_ok env"
    and "selected_patterns a = ps1 @ p # ps2"
    and "densities_arg a = ds1 @ d # ds2"
    and "run_patterns env 0 ps1 (densities_arg a) \<lparr>b_result = [], b_rotation = 0\<rparr>
           = (Returned True, st1)"
    and "benchmark_densities env (length ps1) 0 ds1 (p, st1) = (Returned True, p1, st2)"
    and "generate (gen_clock env) p1 d = Some p2"
    and "get_point_count p2 \<noteq> 0"
    and "render_loop_run (frames (loop_of env (length ps1) (length ds1))) (p2, 0, 0, b_rotation st2)
           = (QuitSeen, p3, n, t, r)"
  shows "fst (main env a) = 0 \<and> saved_files (snd (main env a)) = [b_result st2]"
proof -
  have "benchmark_densities env (length ps1) 0 (ds1 @ d # ds2) (p, st1)
          = benchmark_densities env (length ps1) (length ds1) (d # ds2) (p1, st2)"
    using benchmark_densities_append [OF assms(5), of "d # ds2"] by simp
  also have "\<dots> = (Returned False, p3, st2\<lparr>b_rotation := r\<rparr>)"
    using assms(6,7,8) by simp
  finally have "benchmark_pattern env (length ps1) p (densities_arg a) st1
                  = (Returned False, p3, st2\<lparr>b_rotation := r\<rparr>)"
    by (simp add: benchmark_pattern_def assms(3))
  then have "run_patterns env (length ps1) (p # ps2) (densities_arg a) st1
               = (Returned False, st2\<lparr>b_rotation := r\<rparr>)"
    by simp
  then have "run_patterns env 0 (selected_patterns a) (densities_arg a)
               \<lparr>b_result = [], b_rotation = 0\<rparr> = (Returned False, st2\<lparr>b_rotation := r\<rparr>)"
    using run_patterns_append [OF assms(4), of "p # ps2"] by (simp add: assms(2))
  then show ?thesis using assms(1) by (simp add: main_def run_benchmark_def Let_def)
qed

text \<open>
  C3 (amended). When \<^verbatim>\<open>init_pygame\<close> or anything in the sweep raises an exception, the
  run is caught by the handler of \<^verbatim>\<open>run_benchmark\<close>, the process exits with status 1,
  and no result file is written.
\<close>

theorem exception_exits_without_saving:
  "(\<not> init_ok env \<or>
    fst (run_patterns env 0 (selected_patterns a) (densities_arg a)
           \<lparr>b_result = [], b_rotation = 0\<rparr>) = Raised) \<longrightarrow>
   fst (main env a) = 1 \<and> saved_files (snd (main env a)) = []"
  by (auto simp: main_def run_benchmark_def Let_def split: prod.splits outcome.splits)

lemma generate_Fibonacci:
  assumes "pkind pat = FibonacciSphere" and "\<bar>py_fmul d 10000\<bar> \<le> max_double"
  shows "\<exists>pat1. generate clk pat d = Some pat1 \<and> pkind pat1 = FibonacciSphere \<and>
           get_point_count pat1 = nat \<lfloor>py_fmul d 10000\<rfloor>"
proof -
  obtain f where "FibonacciSphere_generate clk d = Some f"
      "length (points f) = nat \<lfloor>py_fmul d 10000\<rfloor>"
    using FibonacciSphere_generate_total [OF assms(2), of clk] by blast
  then show ?thesis using assms(1) by (simp add: generate_def get_point_count_def)
qed

lemma render_pattern_other:
  "pkind pat \<noteq> ParticleSystem \<Longrightarrow>
   render_pattern clk rot pat =
     Some ([GlClear, GlLoadIdentity, GlTranslatef 0.0 0.0 (-3.0), GlRotatef rot 1 1 0,
            GlRotatef (rot * 0.7) 0 1 1, GlRotatef (rot * 0.3) 1 0 1]
           @ draw_points clk (points (pstate pat)) (colors (pstate pat))
           @ render_overlay_effects rot @ [DisplayFlip], pat)"
  by (simp add: render_pattern_def)

lemma example_first_density:
  assumes "pkind p = FibonacciSphere"
  shows "\<exists>p1. pkind p1 = FibonacciSphere \<and>
     benchmark_densities (example_env second) 0 0 [1/1000] (p, \<lparr>b_result = [], b_rotation = 0\<rparr>)
       = (Returned True, p1, \<lparr>b_result = first_record, b_rotation = 2\<rparr>)"
proof -
  have "\<bar>py_fmul (1/1000) 10000\<bar> \<le> max_double"
    by (intro small_le_max_double) (simp add: product_1_1000)
  from generate_Fibonacci [OF assms this]
  obtain p1 where g: "generate (\<lambda>i k. 0) p (1/1000) = Some p1" "pkind p1 = FibonacciSphere"
      "get_point_count p1 = nat \<lfloor>py_fmul (1/1000) 10000\<rfloor>"
    by blast
  then have c: "get_point_count p1 = 10" by (simp add: product_1_1000)
  have l: "render_loop_run [ok_frame, ok_frame] (p1, 0, 0, 0) = (TimeUp, p1, 2, 2/100, 2)"
    using g(2) by (simp add: ok_frame_def render_pattern_other)
  show ?thesis using g(1,2) c l
    by (simp add: example_env_def Let_def add_result_def pattern_name_def first_record_def)
qed

lemma example_second_density:
  assumes "pkind p1 = FibonacciSphere"
  shows "\<exists>p2. generate (\<lambda>i k. 0) p1 (1/500) = Some p2 \<and> get_point_count p2 = 20 \<and>
     render_loop_run [ok_frame, quit_frame] (p2, 0, 0, 2) = (QuitSeen, p2, 1, 1/100, 3) \<and>
     render_loop_run [ok_frame, failing_frame] (p2, 0, 0, 2) = (RenderRaised, p2, 1, 1/100, 3)"
proof -
  have "\<bar>py_fmul (1/500) 10000\<bar> \<le> max_double"
    by (intro small_le_max_double) (simp add: product_1_500)
  from generate_Fibonacci [OF assms this]
  obtain p2 where g: "generate (\<lambda>i k. 0) p1 (1/500) = Some p2" "pkind p2 = FibonacciSphere"
      "get_point_count p2 = nat \<lfloor>py_fmul (1/500) 10000\<rfloor>"
    by blast
  then have c: "get_point_count p2 = 20" by (simp add: product_1_500)
  have "render_loop_run [ok_frame, quit_frame] (p2, 0, 0, 2) = (QuitSeen, p2, 1, 1/100, 3)"
    using g(2) by (simp add: ok_frame_def quit_frame_def render_pattern_other)
  moreover have "render_loop_run [ok_frame, failing_frame] (p2, 0, 0, 2) = (RenderRaised, p2, 1, 1/100, 3)"
    using g(2) by (simp add: ok_frame_def failing_frame_def render_pattern_other)
  ultimately show ?thesis using g(1) c by simp
qed

theorem quit_aborts_sweep_witness:
  "fst (main (example_env quit_frame) example_args) = 0 \<and>
   saved_files (snd (main (example_env quit_frame) example_args)) = [first_record]"
proof -
  let ?env = "example_env quit_frame"
  obtain p1 where p1: "pkind p1 = FibonacciSphere"
    "benchmark_densities ?env 0 0 [1/1000] (new_pattern FibonacciSphere, \<lparr>b_result = [], b_rotation = 0\<rparr>)
       = (Returned True, p1, \<lparr>b_result = first_record, b_rotation = 2\<rparr>)"
    using example_first_density [of "new_pattern FibonacciSphere" quit_frame]
    by (auto simp: new_pattern_def)
  obtain p2 where p2: "generate (\<lambda>i k. 0) p1 (1/500) = Some p2" "get_point_count p2 = 20"
     "render_loop_run [ok_frame, quit_frame] (p2, 0, 0, 2) = (QuitSeen, p2, 1, 1/100, 3)"
    using example_second_density [OF p1(1)] by blast
  have "fst (main ?env example_args) = 0 \<and>
        saved_files (snd (main ?env example_args))
          = [b_result \<lparr>b_result = first_record, b_rotation = 2\<rparr>]"
  proof (rule quit_aborts_sweep [where ?ps1.0 = "[]" and p = "new_pattern FibonacciSphere"
        and ?ps2.0 = "[]" and ?ds1.0 = "[1/1000]" and d = "1/500" and ?ds2.0 = "[1/250]"
        and ?st1.0 = "\<lparr>b_result = [], b_rotation = 0\<rparr>" and ?p1.0 = p1 and ?p2.0 = p2
        and ?p3.0 = p2 and n = 1 and t = "1/100" and r = 3])
    show "init_ok ?env" by (simp add: example_env_def)
    show "selected_patterns example_args = [] @ new_pattern FibonacciSphere # []"
      by (simp add: selected_patterns_def example_args_def)
    show "densities_arg example_args = [1/1000] @ 1/500 # [1/250]"
      by (simp add: example_args_def)
    show "run_patterns ?env 0 [] (densities_arg example_args) \<lparr>b_result = [], b_rotation = 0\<rparr>
           = (Returned True, \<lparr>b_result = [], b_rotation = 0\<rparr>)" by simp
    show "benchmark_densities ?env (length ([] :: pattern list)) 0 [1/1000]
            (new_pattern FibonacciSphere, \<lparr>b_result = [], b_rotation = 0\<rparr>)
          = (Returned True, p1, \<lparr>b_result = first_record, b_rotation = 2\<rparr>)"
      using p1(2) by simp
    show "generate (gen_clock ?env) p1 (1/500) = Some p2"
      using p2(1) by (simp add: example_env_def)
    show "get_point_count p2 \<noteq> 0" using p2(2) by simp
    show "render_loop_run (frames (loop_of ?env (length ([] :: pattern list)) (length [1/1000 :: real])))
            (p2, 0, 0, b_rotation \<lparr>b_result = first_record, b_rotation = 2\<rparr>)
          = (QuitSeen, p2, 1, 1/100, 3)"
      using p2(3) by (simp add: example_env_def)
  qed
  then show ?thesis by simp
qed


lemma example_failing_run:
  "run_patterns (example_env failing_frame) 0 (selected_patterns example_args)
     (densities_arg example_args) \<lparr>b_result = [], b_rotation = 0\<rparr>
   = (Raised, \<lparr>b_result = first_record, b_rotation = 3\<rparr>)"
proof -
  let ?env = "example_env failing_frame"
  obtain p1 where p1: "pkind p1 = FibonacciSphere"
    "benchmark_densities ?env 0 0 [1/1000] (new_pattern FibonacciSphere, \<lparr>b_result = [], b_rotation = 0\<rparr>)
       = (Returned True, p1, \<lparr>b_result = first_record, b_rotation = 2\<rparr>)"
    using example_first_density [of "new_pattern FibonacciSphere" failing_frame]
    by (auto simp: new_pattern_def)
  obtain p2 where p2: "generate (\<lambda>i k. 0) p1 (1/500) = Some p2" "get_point_count p2 = 20"
     "render_loop_run [ok_frame, failing_frame] (p2, 0, 0, 2) = (RenderRaised, p2, 1, 1/100, 3)"
    using example_second_density [OF p1(1)] by blast
  have "benchmark_densities ?env 0 0 ([1/1000] @ [1/500, 1/250])
          (new_pattern FibonacciSphere, \<lparr>b_result = [], b_rotation = 0\<rparr>)
        = benchmark_densities ?env 0 (0 + length [1/1000 :: real]) [1/500, 1/250]
            (p1, \<lparr>b_result = first_record, b_rotation = 2\<rparr>)"
    by (rule benchmark_densities_append [OF p1(2)])
  also have "\<dots> = (Raised, p2, \<lparr>b_result = first_record, b_rotation = 3\<rparr>)"
    using p2 by (simp add: example_env_def)
  finally show ?thesis
    by (simp add: selected_patterns_def example_args_def benchmark_pattern_def)
qed

theorem exception_exits_without_saving_witness:
  "fst (main (example_env failing_frame) example_args) = 1 \<and>
   saved_files (snd (main (example_env failing_frame) example_args)) = []"
  using exception_exits_without_saving [of "example_env failing_frame" example_args]
  by (simp add: example_failing_run)

theorem exception_discards_records_counterexample:
  "fst (main (example_env failing_frame) example_args) \<noteq> 0 \<and>
   collected (snd (main (example_env failing_frame) example_args)) = first_record \<and>
   first_record \<noteq> [] \<and>
   saved_files (snd (main (example_env failing_frame) example_args)) = []"
  by (simp add: main_def run_benchmark_def example_failing_run Let_def first_record_def)
     (simp add: example_env_def)

lemma generate_ParticleSystem:
  "generate clk (new_pattern ParticleSystem) d = Some (new_pattern ParticleSystem)"
  by (simp add: generate_def new_pattern_def ParticleSystem_generate_empty)

lemma new_pattern_count: "get_point_count (new_pattern k) = 0"
  by (simp add: get_point_count_def new_pattern_def)

theorem zero_points_skipped_witness:
  "benchmark_densities (example_env ok_frame) 4 0 [1/2, 1]
     (new_pattern ParticleSystem, \<lparr>b_result = first_record, b_rotation = 2\<rparr>)
   = (Returned True, new_pattern ParticleSystem, \<lparr>b_result = first_record, b_rotation = 2\<rparr>)"
proof -
  let ?env = "example_env ok_frame" and ?p = "new_pattern ParticleSystem"
  let ?st = "\<lparr>b_result = first_record, b_rotation = 2\<rparr>"
  have g: "generate (gen_clock ?env) ?p d = Some ?p \<and> get_point_count ?p = 0" for d
    by (simp only: generate_ParticleSystem new_pattern_count)
  have "benchmark_densities ?env 4 0 [1/2, 1] (?p, ?st)
          = benchmark_densities ?env 4 (0 + 1) [1] (?p, ?st)"
    by (rule zero_points_skipped [THEN mp, OF g])
  also have "\<dots> = benchmark_densities ?env 4 (0 + 1 + 1) [] (?p, ?st)"
    by (rule zero_points_skipped [THEN mp, OF g])
  also have "\<dots> = (Returned True, ?p, ?st)"
    by (simp only: benchmark_densities.simps)
  finally show ?thesis .
qed


end
